theory Spec2Isabelle
  imports Complex_Main "HOL-Library.Multiset" "HOL-Library.Log_Nat"
begin

section \<open>Data model (src/types/index.ts)\<close>

text \<open>
  A JavaScript \<open>number\<close> that is stored in an item or a history entry is a finite
  number, as the data model requires (grams and calories, never \<open>NaN\<close> or an infinity): it
  is modelled as a rational, and the arithmetic of the engine on such numbers rounds its
  exact result to the nearest double (section on numbers below). Scores, minutes and
  milliseconds are integers far below \<open>2^53\<close>, on which the arithmetic of doubles is
  exact: they are \<open>int\<close>. A number that can be \<open>NaN\<close> (the result of \<open>parseInt\<close>, the
  time value of a \<open>Date\<close> built from a string) is an \<open>option\<close>, with \<open>None\<close> for
  \<open>NaN\<close>; every comparison with \<open>NaN\<close> is false, as in JavaScript. Strings are
  \<open>char list\<close>s of ASCII characters.
\<close>

datatype DietType =
    LowGlycemic | Mediterranean | Keto | Paleo | Whole30 | IntermittentFasting
  | Dash | Vegan | Vegetarian | HighProtein | LowFodmap | Flexitarian

datatype DietaryGoal =
    GlucoseStability | WeightLoss | WeightMaintenance | MuscleGain | HeartHealth

datatype UnitsPreference = Metric | Imperial

datatype FoodCategory =
    Produce | Dairy | Meat | Pantry | Frozen | Beverages | Condiments | Grains | Snacks

datatype RuleType =
    Allowed | Restricted | TimeBased | Sequencing | MacroThreshold | DailyLimit

text \<open>\<open>quantity: number | 'unknown'\<close>\<close>

datatype Quantity = Known rat | Unknown

record EatingSchedule =
  breakfast :: string
  lunch :: string
  dinner :: string
  snacks :: "string list"

record FastingWindow =
  fw_start :: string
  fw_end :: string

record UserProfile =
  userId :: string
  dietType :: DietType
  dietaryGoals :: "DietaryGoal list"
  eatingSchedule :: EatingSchedule
  allergies :: "string list"
  intolerances :: "string list"
  unitsPreference :: UnitsPreference
  fastingWindow :: "FastingWindow option"

record InventoryItem =
  item_id :: string
  itemName :: string
  quantity :: Quantity
  unit :: "string option"
  category :: FoodCategory
  fiberG :: rat
  fatG :: rat
  carbsG :: rat
  proteinG :: rat
  calories :: "rat option"
  glycemicIndex :: "rat option"
  servingSize :: "string option"
  expirationDate :: "string option"
  lastUpdated :: string

record MacrosConsumed =
  m_fiberG :: rat
  m_fatG :: rat
  m_carbsG :: rat
  m_proteinG :: rat
  m_calories :: "rat option"

record DietaryHistoryEntry =
  h_id :: string
  timestamp :: string
  h_itemName :: string
  h_itemId :: "string option"
  quantityConsumed :: rat
  h_unit :: "string option"
  macrosConsumed :: MacrosConsumed
  dietaryRuleViolations :: "string list"
  glucoseRelevanceFlag :: bool

text \<open>
  A \<open>Date\<close> object is observed by the engine through \<open>getTime()\<close> (milliseconds since
  the epoch), \<open>getHours()\<close> and \<open>getMinutes()\<close> (local time). On an invalid date all three
  are \<open>NaN\<close>.
\<close>

datatype Date = ValidDate int int int | InvalidDate

fun getTime :: "Date \<Rightarrow> int option" where
  "getTime (ValidDate ms h m) = Some ms"
| "getTime InvalidDate = None"

fun getHours :: "Date \<Rightarrow> int option" where
  "getHours (ValidDate ms h m) = Some h"
| "getHours InvalidDate = None"

fun getMinutes :: "Date \<Rightarrow> int option" where
  "getMinutes (ValidDate ms h m) = Some m"
| "getMinutes InvalidDate = None"

record DietRuleParams =
  item :: InventoryItem
  currentTime :: Date
  profile :: UserProfile
  todayHistory :: "DietaryHistoryEntry list"

record DietRule =
  rule_id :: string
  r_dietType :: DietType
  ruleType :: RuleType
  description :: string
  condition :: "DietRuleParams \<Rightarrow> bool"
  message :: string

section \<open>JavaScript primitives used by the engine\<close>

subsection \<open>Arithmetic on doubles\<close>

text \<open>
  The result of \<open>+\<close>, \<open>-\<close>, \<open>*\<close> and \<open>/\<close> on numbers is the exact result rounded to
  the nearest double, ties to the even significand (IEEE 754, 53 bits of significand,
  subnormal numbers below \<open>2^-1022\<close>). \<open>binade x\<close> is the exponent \<open>e\<close> with
  \<open>2^e \<le> |x| < 2^(e+1)\<close>. Results of magnitude \<open>2^1024\<close> and more, where JavaScript
  gives an infinity, are outside the model.
\<close>

definition roundTiesToEven :: "rat \<Rightarrow> int" where
  "roundTiesToEven q =
     (let f = \<lfloor>q\<rfloor>; r = q - of_int f
      in if r < 1 / 2 then f else if r > 1 / 2 then f + 1 else if even f then f else f + 1)"

definition binade :: "rat \<Rightarrow> int" where
  "binade x =
     (let a = \<bar>x\<bar>
      in if a \<ge> 1 then bitlen \<lfloor>a\<rfloor> - 1 else - bitlen (\<lceil>1 / a\<rceil> - 1))"

definition toDouble :: "rat \<Rightarrow> rat" where
  "toDouble x =
     (if x = 0 then 0
      else
        (let e = max (binade x) (- 1022);
             ulp = power_int 2 (e - 52)
         in of_int (roundTiesToEven (x / ulp)) * ulp))"

definition num_add :: "rat \<Rightarrow> rat \<Rightarrow> rat" where
  "num_add a b = toDouble (a + b)"

definition num_sub :: "rat \<Rightarrow> rat \<Rightarrow> rat" where
  "num_sub a b = toDouble (a - b)"

definition num_mul :: "rat \<Rightarrow> rat \<Rightarrow> rat" where
  "num_mul a b = toDouble (a * b)"

definition num_div :: "rat \<Rightarrow> rat \<Rightarrow> rat" where
  "num_div a b = toDouble (a / b)"

subsection \<open>Numbers that may be NaN\<close>

definition js_lt :: "'a::linorder option \<Rightarrow> 'a option \<Rightarrow> bool" where
  "js_lt a b = (case a of None \<Rightarrow> False | Some x \<Rightarrow> (case b of None \<Rightarrow> False | Some y \<Rightarrow> x < y))"

definition js_le :: "'a::linorder option \<Rightarrow> 'a option \<Rightarrow> bool" where
  "js_le a b = (case a of None \<Rightarrow> False | Some x \<Rightarrow> (case b of None \<Rightarrow> False | Some y \<Rightarrow> x \<le> y))"

definition js_gt :: "'a::linorder option \<Rightarrow> 'a option \<Rightarrow> bool" where
  "js_gt a b = js_lt b a"

definition js_ge :: "'a::linorder option \<Rightarrow> 'a option \<Rightarrow> bool" where
  "js_ge a b = js_le b a"

definition js_add :: "int option \<Rightarrow> int option \<Rightarrow> int option" where
  "js_add a b = (case a of None \<Rightarrow> None | Some x \<Rightarrow> (case b of None \<Rightarrow> None | Some y \<Rightarrow> Some (x + y)))"

definition js_mul :: "int option \<Rightarrow> int option \<Rightarrow> int option" where
  "js_mul a b = (case a of None \<Rightarrow> None | Some x \<Rightarrow> (case b of None \<Rightarrow> None | Some y \<Rightarrow> Some (x * y)))"

subsection \<open>Strings\<close>

text \<open>\<open>String.prototype.toLowerCase\<close> on ASCII text.\<close>

definition lowerChar :: "char \<Rightarrow> char" where
  "lowerChar c = (let n = (of_char c :: nat) in if 65 \<le> n \<and> n \<le> 90 then char_of (n + 32) else c)"

definition toLowerCase :: "string \<Rightarrow> string" where
  "toLowerCase s = map lowerChar s"

text \<open>\<open>s.includes(k)\<close>: \<open>k\<close> occurs in \<open>s\<close> as a contiguous substring.\<close>

fun startsWith :: "string \<Rightarrow> string \<Rightarrow> bool" where
  "startsWith s [] = True"
| "startsWith [] (k # ks) = False"
| "startsWith (c # cs) (k # ks) = (c = k \<and> startsWith cs ks)"

fun includes_str :: "string \<Rightarrow> string \<Rightarrow> bool" where
  "includes_str [] k = (k = [])"
| "includes_str (c # cs) k = (startsWith (c # cs) k \<or> includes_str cs k)"

text \<open>\<open>s.split(':')\<close>: never empty, one more piece than there are separators.\<close>

fun split_str :: "char \<Rightarrow> string \<Rightarrow> string list" where
  "split_str sep [] = [[]]"
| "split_str sep (c # cs) =
     (if c = sep then [] # split_str sep cs
      else (case split_str sep cs of [] \<Rightarrow> [[c]] | p # ps \<Rightarrow> (c # p) # ps))"

text \<open>
  \<open>parseInt(s)\<close> with no radix: leading white space is skipped, a sign is read, a prefix
  \<open>0x\<close> or \<open>0X\<close> selects radix 16, and the longest run of digits is the value; no digit
  gives \<open>NaN\<close>. \<open>parseInt(undefined)\<close> is \<open>NaN\<close> too.
\<close>

definition isWhiteSpace :: "char \<Rightarrow> bool" where
  "isWhiteSpace c = (let n = (of_char c :: nat) in (9 \<le> n \<and> n \<le> 13) \<or> n = 32)"

definition digitOf :: "nat \<Rightarrow> char \<Rightarrow> nat option" where
  "digitOf radix c =
     (let n = (of_char c :: nat) in
      if 48 \<le> n \<and> n \<le> 57 then Some (n - 48)
      else if radix = 16 \<and> 97 \<le> n \<and> n \<le> 102 then Some (n - 87)
      else if radix = 16 \<and> 65 \<le> n \<and> n \<le> 70 then Some (n - 55)
      else None)"

fun readDigits :: "nat \<Rightarrow> string \<Rightarrow> nat option \<Rightarrow> nat option" where
  "readDigits radix [] acc = acc"
| "readDigits radix (c # cs) acc =
     (case digitOf radix c of
        None \<Rightarrow> acc
      | Some d \<Rightarrow> readDigits radix cs (Some (case acc of None \<Rightarrow> d | Some a \<Rightarrow> a * radix + d)))"

definition stripSign :: "string \<Rightarrow> int \<times> string" where
  "stripSign s =
     (case s of
        [] \<Rightarrow> (1, s)
      | c # cs \<Rightarrow> if c = CHR ''-'' then (- 1, cs) else if c = CHR ''+'' then (1, cs) else (1, s))"

definition stripPrefix :: "string \<Rightarrow> nat \<times> string" where
  "stripPrefix s =
     (case s of
        c # x # cs \<Rightarrow>
          if c = CHR ''0'' \<and> (x = CHR ''x'' \<or> x = CHR ''X'') then (16, cs) else (10, s)
      | _ \<Rightarrow> (10, s))"

definition parseInt :: "string \<Rightarrow> int option" where
  "parseInt s =
     (let (sign, s1) = stripSign (dropWhile isWhiteSpace s);
          (radix, s2) = stripPrefix s1
      in map_option (\<lambda>n. sign * int n) (readDigits radix s2 None))"

definition parseInt_opt :: "string option \<Rightarrow> int option" where
  "parseInt_opt x = (case x of None \<Rightarrow> None | Some s \<Rightarrow> parseInt s)"

text \<open>\<open>xs[i]\<close> on an array: \<open>undefined\<close> out of range.\<close>

definition nth_opt :: "'a list \<Rightarrow> nat \<Rightarrow> 'a option" where
  "nth_opt xs i = (if i < length xs then Some (xs ! i) else None)"

text \<open>\<open>xs[xs.length - 1]\<close>: \<open>undefined\<close> on the empty array.\<close>

definition lastElem :: "'a list \<Rightarrow> 'a option" where
  "lastElem xs = (if xs = [] then None else Some (last xs))"

section \<open>The rule set (src/engines/dietRules.ts)\<close>

definition NON_VEGAN_CATEGORIES :: "FoodCategory list" where
  "NON_VEGAN_CATEGORIES = [Meat, Dairy]"

definition isHighProtein :: "InventoryItem \<Rightarrow> bool" where
  "isHighProtein it = (proteinG it \<ge> 15)"

definition isHighFat :: "InventoryItem \<Rightarrow> bool" where
  "isHighFat it = (fatG it \<ge> 10)"

definition isVegetarian :: "InventoryItem \<Rightarrow> bool" where
  "isVegetarian it = (category it \<noteq> Meat)"

definition isVegan :: "InventoryItem \<Rightarrow> bool" where
  "isVegan it = (\<not> List.member NON_VEGAN_CATEGORIES (category it))"

definition isLowGI :: "InventoryItem \<Rightarrow> bool" where
  "isLowGI it = (case glycemicIndex it of None \<Rightarrow> True | Some g \<Rightarrow> g \<le> 55)"

definition isHighFiber :: "InventoryItem \<Rightarrow> bool" where
  "isHighFiber it = (fiberG it \<ge> 3)"

definition KETO_RESTRICTED :: "string list" where
  "KETO_RESTRICTED =
     [''bread'', ''pasta'', ''rice'', ''potato'', ''sugar'', ''fruit juice'', ''candy'', ''soda'']"

definition PALEO_RESTRICTED :: "string list" where
  "PALEO_RESTRICTED =
     [''bread'', ''pasta'', ''rice'', ''beans'', ''peanut'', ''dairy'', ''processed'']"

definition WHOLE30_RESTRICTED :: "string list" where
  "WHOLE30_RESTRICTED =
     [''sugar'', ''alcohol'', ''grain'', ''legume'', ''dairy'', ''soy'', ''carrageenan'', ''sulfites'']"

definition LOW_FODMAP_RESTRICTED :: "string list" where
  "LOW_FODMAP_RESTRICTED =
     [''garlic'', ''onion'', ''wheat'', ''apple'', ''pear'', ''watermelon'', ''honey'', ''milk'', ''beans'']"

definition DASH_ENCOURAGED :: "string list" where
  "DASH_ENCOURAGED =
     [''vegetable'', ''fruit'', ''whole grain'', ''lean protein'', ''nuts'', ''beans'']"

definition containsAny :: "string \<Rightarrow> string list \<Rightarrow> bool" where
  "containsAny name keywords =
     (let lowerName = toLowerCase name
      in list_ex (\<lambda>k. includes_str lowerName (toLowerCase k)) keywords)"

text \<open>
  \<open>new Date(s)\<close> on a string is the host's date parser; it is the parameter \<open>parseDate\<close>
  of the rule table and of the functions that use it, giving the time value in
  milliseconds, or \<open>None\<close> for an invalid date (time value \<open>NaN\<close>).
\<close>

type_synonym DateParser = "string \<Rightarrow> int option"

definition low_gi_allowed :: DietRule where
  "low_gi_allowed =
     \<lparr> rule_id = ''low-gi-allowed'', r_dietType = LowGlycemic, ruleType = Allowed,
       description = ''Prefer foods with low glycemic index'',
       condition = (\<lambda>ps. isLowGI (item ps)),
       message = ''Great choice for blood sugar stability'' \<rparr>"

definition low_gi_fiber :: DietRule where
  "low_gi_fiber =
     \<lparr> rule_id = ''low-gi-fiber'', r_dietType = LowGlycemic, ruleType = Allowed,
       description = ''High fiber foods help stabilize glucose'',
       condition = (\<lambda>ps. isHighFiber (item ps)),
       message = ''High fiber content helps with glucose control'' \<rparr>"

definition keto_low_carb :: DietRule where
  "keto_low_carb =
     \<lparr> rule_id = ''keto-low-carb'', r_dietType = Keto, ruleType = MacroThreshold,
       description = ''Foods must be very low in carbohydrates'',
       condition = (\<lambda>ps. carbsG (item ps) \<le> 5
                      \<or> (carbsG (item ps) \<le> 10
                          \<and> fiberG (item ps) \<ge> num_mul (carbsG (item ps)) (toDouble (3 / 10)))),
       message = ''Fits keto carb limits'' \<rparr>"

definition keto_high_fat :: DietRule where
  "keto_high_fat =
     \<lparr> rule_id = ''keto-high-fat'', r_dietType = Keto, ruleType = Allowed,
       description = ''Prefer high-fat foods'',
       condition = (\<lambda>ps. isHighFat (item ps)),
       message = ''Good fat source for keto'' \<rparr>"

definition keto_restricted :: DietRule where
  "keto_restricted =
     \<lparr> rule_id = ''keto-restricted'', r_dietType = Keto, ruleType = Restricted,
       description = ''Avoid high-carb foods'',
       condition = (\<lambda>ps. \<not> containsAny (itemName (item ps)) KETO_RESTRICTED),
       message = ''This food may be too high in carbs for keto'' \<rparr>"

definition med_vegetables :: DietRule where
  "med_vegetables =
     \<lparr> rule_id = ''med-vegetables'', r_dietType = Mediterranean, ruleType = Allowed,
       description = ''Emphasize vegetables'',
       condition = (\<lambda>ps. category (item ps) = Produce),
       message = ''Great vegetable choice for Mediterranean diet'' \<rparr>"

definition med_healthy_fats :: DietRule where
  "med_healthy_fats =
     \<lparr> rule_id = ''med-healthy-fats'', r_dietType = Mediterranean, ruleType = Allowed,
       description = ''Include healthy fats'',
       condition = (\<lambda>ps. containsAny (itemName (item ps))
                             [''olive'', ''avocado'', ''nuts'', ''fish'', ''salmon'']),
       message = ''Excellent source of healthy fats'' \<rparr>"

definition paleo_whole_foods :: DietRule where
  "paleo_whole_foods =
     \<lparr> rule_id = ''paleo-whole-foods'', r_dietType = Paleo, ruleType = Allowed,
       description = ''Emphasize whole, unprocessed foods'',
       condition = (\<lambda>ps. List.member [Produce, Meat] (category (item ps))),
       message = ''Whole food appropriate for Paleo'' \<rparr>"

definition paleo_restricted :: DietRule where
  "paleo_restricted =
     \<lparr> rule_id = ''paleo-restricted'', r_dietType = Paleo, ruleType = Restricted,
       description = ''Avoid grains, legumes, dairy, and processed foods'',
       condition = (\<lambda>ps. \<not> containsAny (itemName (item ps)) PALEO_RESTRICTED),
       message = ''This food is not typically allowed on Paleo'' \<rparr>"

definition whole30_restricted :: DietRule where
  "whole30_restricted =
     \<lparr> rule_id = ''whole30-restricted'', r_dietType = Whole30, ruleType = Restricted,
       description = ''No sugar, alcohol, grains, legumes, soy, or dairy'',
       condition = (\<lambda>ps. \<not> containsAny (itemName (item ps)) WHOLE30_RESTRICTED),
       message = ''This food is not allowed on Whole30'' \<rparr>"

definition whole30_whole_foods :: DietRule where
  "whole30_whole_foods =
     \<lparr> rule_id = ''whole30-whole-foods'', r_dietType = Whole30, ruleType = Allowed,
       description = ''Eat whole, unprocessed foods'',
       condition = (\<lambda>ps. List.member [Produce, Meat] (category (item ps))),
       message = ''Whole food appropriate for Whole30'' \<rparr>"

text \<open>
  \<open>parseInt(s.split(':')[0]) * 60 + parseInt(s.split(':')[1])\<close>, and
  \<open>currentTime.getHours() * 60 + currentTime.getMinutes()\<close>.
\<close>

definition windowMinutes :: "string \<Rightarrow> int option" where
  "windowMinutes s =
     js_add (js_mul (parseInt_opt (nth_opt (split_str CHR '':'' s) 0)) (Some 60))
            (parseInt_opt (nth_opt (split_str CHR '':'' s) 1))"

definition nowMinutes :: "Date \<Rightarrow> int option" where
  "nowMinutes t = js_add (js_mul (getHours t) (Some 60)) (getMinutes t)"

definition if_fasting_window :: DietRule where
  "if_fasting_window =
     \<lparr> rule_id = ''if-fasting-window'', r_dietType = IntermittentFasting, ruleType = TimeBased,
       description = ''Check if currently in eating window'',
       condition = (\<lambda>ps.
         case fastingWindow (profile ps) of
           None \<Rightarrow> True
         | Some w \<Rightarrow>
             (let now = nowMinutes (currentTime ps);
                  start = windowMinutes (fw_start w);
                  end' = windowMinutes (fw_end w)
              in if js_gt start end' then js_lt now start \<and> js_ge now end'
                 else js_ge now end' \<and> js_lt now start)),
       message = ''You are currently in your fasting window'' \<rparr>"

definition dash_low_sodium :: DietRule where
  "dash_low_sodium =
     \<lparr> rule_id = ''dash-low-sodium'', r_dietType = Dash, ruleType = Allowed,
       description = ''Emphasize low-sodium, nutrient-rich foods'',
       condition = (\<lambda>ps. containsAny (itemName (item ps)) DASH_ENCOURAGED
                      \<or> category (item ps) = Produce),
       message = ''Heart-healthy choice for DASH diet'' \<rparr>"

definition dash_vegetables :: DietRule where
  "dash_vegetables =
     \<lparr> rule_id = ''dash-vegetables'', r_dietType = Dash, ruleType = Allowed,
       description = ''Emphasize fruits and vegetables'',
       condition = (\<lambda>ps. category (item ps) = Produce \<and> isHighFiber (item ps)),
       message = ''Excellent produce choice for DASH'' \<rparr>"

definition vegan_no_animal :: DietRule where
  "vegan_no_animal =
     \<lparr> rule_id = ''vegan-no-animal'', r_dietType = Vegan, ruleType = Restricted,
       description = ''No animal products'',
       condition = (\<lambda>ps. isVegan (item ps)),
       message = ''This food contains animal products'' \<rparr>"

definition vegan_protein :: DietRule where
  "vegan_protein =
     \<lparr> rule_id = ''vegan-protein'', r_dietType = Vegan, ruleType = Allowed,
       description = ''Plant-based protein sources'',
       condition = (\<lambda>ps. isVegan (item ps) \<and> proteinG (item ps) \<ge> 5),
       message = ''Good plant-based protein source'' \<rparr>"

definition vegetarian_no_meat :: DietRule where
  "vegetarian_no_meat =
     \<lparr> rule_id = ''vegetarian-no-meat'', r_dietType = Vegetarian, ruleType = Restricted,
       description = ''No meat'',
       condition = (\<lambda>ps. isVegetarian (item ps)),
       message = ''This food contains meat'' \<rparr>"

definition high_protein_priority :: DietRule where
  "high_protein_priority =
     \<lparr> rule_id = ''high-protein-priority'', r_dietType = HighProtein, ruleType = Allowed,
       description = ''Prioritize high-protein foods'',
       condition = (\<lambda>ps. isHighProtein (item ps)),
       message = ''Excellent protein source'' \<rparr>"

definition high_protein_sequence :: "DateParser \<Rightarrow> DietRule" where
  "high_protein_sequence parseDate =
     \<lparr> rule_id = ''high-protein-sequence'', r_dietType = HighProtein, ruleType = Sequencing,
       description = ''Eat protein before carbs'',
       condition = (\<lambda>ps.
         if \<not> isHighProtein (item ps) then True
         else
           (let carbMeals = filter (\<lambda>h. m_carbsG (macrosConsumed h) > 15) (todayHistory ps);
                proteinMeals = filter (\<lambda>h. m_proteinG (macrosConsumed h) > 15) (todayHistory ps);
                lastCarbMeal = lastElem carbMeals;
                lastProteinMeal = lastElem proteinMeals
            in case lastCarbMeal of
                 None \<Rightarrow> True
               | Some c \<Rightarrow>
                   (case lastProteinMeal of
                      None \<Rightarrow> False
                    | Some p \<Rightarrow> js_lt (parseDate (timestamp p)) (parseDate (timestamp c))))),
       message = ''Try to eat protein before carbs for better satiety'' \<rparr>"

definition low_fodmap_restricted :: DietRule where
  "low_fodmap_restricted =
     \<lparr> rule_id = ''low-fodmap-restricted'', r_dietType = LowFodmap, ruleType = Restricted,
       description = ''Avoid high-FODMAP foods'',
       condition = (\<lambda>ps. \<not> containsAny (itemName (item ps)) LOW_FODMAP_RESTRICTED),
       message = ''This food may be high in FODMAPs'' \<rparr>"

definition flexitarian_mostly_plants :: DietRule where
  "flexitarian_mostly_plants =
     \<lparr> rule_id = ''flexitarian-mostly-plants'', r_dietType = Flexitarian, ruleType = Allowed,
       description = ''Emphasize plant-based foods with occasional meat'',
       condition = (\<lambda>ps.
         if category (item ps) \<noteq> Meat then True
         else
           (let meatMealsToday =
                  length (filter (\<lambda>h. includes_str (toLowerCase (h_itemName h)) ''meat''
                                      \<or> includes_str (toLowerCase (h_itemName h)) ''chicken''
                                      \<or> includes_str (toLowerCase (h_itemName h)) ''beef'')
                                 (todayHistory ps))
            in meatMealsToday < 1)),
       message = ''Consider a plant-based alternative'' \<rparr>"

definition dietRules :: "DateParser \<Rightarrow> DietRule list" where
  "dietRules parseDate =
     [ low_gi_allowed, low_gi_fiber,
       keto_low_carb, keto_high_fat, keto_restricted,
       med_vegetables, med_healthy_fats,
       paleo_whole_foods, paleo_restricted,
       whole30_restricted, whole30_whole_foods,
       if_fasting_window,
       dash_low_sodium, dash_vegetables,
       vegan_no_animal, vegan_protein,
       vegetarian_no_meat,
       high_protein_priority, high_protein_sequence parseDate,
       low_fodmap_restricted,
       flexitarian_mostly_plants ]"

definition getRulesForDiet :: "DateParser \<Rightarrow> DietType \<Rightarrow> DietRule list" where
  "getRulesForDiet parseDate d = filter (\<lambda>rule. r_dietType rule = d) (dietRules parseDate)"

section \<open>The rule evaluator\<close>

record EvalResult =
  passed :: bool
  messages :: "string list"
  warnings :: "string list"

text \<open>One iteration of the \<open>for (const rule of rules)\<close> loop of \<open>evaluateItem\<close>.\<close>

definition evaluateRule :: "DietRuleParams \<Rightarrow> DietRule \<Rightarrow> EvalResult \<Rightarrow> EvalResult" where
  "evaluateRule ps rule acc =
     (let result = condition rule ps
      in if ruleType rule = Restricted \<or> ruleType rule = TimeBased then
           (if \<not> result then acc\<lparr> passed := False, warnings := warnings acc @ [message rule] \<rparr>
            else acc)
         else if ruleType rule = Allowed \<and> result then
           acc\<lparr> messages := messages acc @ [message rule] \<rparr>
         else if ruleType rule = Sequencing \<and> \<not> result then
           acc\<lparr> warnings := warnings acc @ [message rule] \<rparr>
         else acc)"

fun evaluateLoop :: "DietRuleParams \<Rightarrow> DietRule list \<Rightarrow> EvalResult \<Rightarrow> EvalResult" where
  "evaluateLoop ps [] acc = acc"
| "evaluateLoop ps (rule # rules) acc = evaluateLoop ps rules (evaluateRule ps rule acc)"

definition evaluateItem :: "DateParser \<Rightarrow> DietRuleParams \<Rightarrow> EvalResult" where
  "evaluateItem parseDate ps =
     evaluateLoop ps (getRulesForDiet parseDate (dietType (profile ps)))
       \<lparr> passed = True, messages = [], warnings = [] \<rparr>"

section \<open>Daily macros and daily limits\<close>

record DailyMacros =
  totalCarbs :: rat
  totalProtein :: rat
  totalFat :: rat
  totalFiber :: rat
  totalCalories :: rat

text \<open>\<open>x || 0\<close> on an optional number: \<open>undefined\<close> and \<open>0\<close> are falsy.\<close>

definition or_zero :: "rat option \<Rightarrow> rat" where
  "or_zero x = (case x of None \<Rightarrow> 0 | Some c \<Rightarrow> if c = 0 then 0 else c)"

text \<open>The callback of \<open>history.reduce\<close>.\<close>

definition addEntry :: "DailyMacros \<Rightarrow> DietaryHistoryEntry \<Rightarrow> DailyMacros" where
  "addEntry acc entry =
     \<lparr> totalCarbs = num_add (totalCarbs acc) (m_carbsG (macrosConsumed entry)),
       totalProtein = num_add (totalProtein acc) (m_proteinG (macrosConsumed entry)),
       totalFat = num_add (totalFat acc) (m_fatG (macrosConsumed entry)),
       totalFiber = num_add (totalFiber acc) (m_fiberG (macrosConsumed entry)),
       totalCalories =
         num_add (totalCalories acc) (or_zero (m_calories (macrosConsumed entry))) \<rparr>"

definition calculateDailyMacros :: "DietaryHistoryEntry list \<Rightarrow> DailyMacros" where
  "calculateDailyMacros history =
     foldl addEntry
       \<lparr> totalCarbs = 0, totalProtein = 0, totalFat = 0, totalFiber = 0, totalCalories = 0 \<rparr>
       history"

text \<open>
  The table \<open>limits\<close> of \<open>checkDailyLimits\<close>; its entries are the integer literals of the
  source.
\<close>

record DietLimits =
  carbs :: "int option"
  protein :: "int option"
  fat :: "int option"

definition limits :: "DietType \<Rightarrow> DietLimits" where
  "limits d =
     (case d of
        Keto \<Rightarrow> \<lparr> carbs = Some 50, protein = None, fat = None \<rparr>
      | LowGlycemic \<Rightarrow> \<lparr> carbs = Some 130, protein = None, fat = None \<rparr>
      | HighProtein \<Rightarrow> \<lparr> carbs = None, protein = Some 150, fat = None \<rparr>
      | _ \<Rightarrow> \<lparr> carbs = None, protein = None, fat = None \<rparr>)"

text \<open>An integer in a template string or a string concatenation: its decimal digits.\<close>

fun natToString :: "nat \<Rightarrow> string" where
  "natToString n =
     (if n < 10 then [char_of (48 + n)]
      else natToString (n div 10) @ [char_of (48 + n mod 10)])"

declare natToString.simps [simp del]

definition numToString :: "int \<Rightarrow> string" where
  "numToString i = (if i < 0 then CHR ''-'' # natToString (nat (- i)) else natToString (nat i))"

record LimitResult =
  fits :: bool
  limit_warnings :: "string list"

definition checkDailyLimits ::
  "InventoryItem \<Rightarrow> DietaryHistoryEntry list \<Rightarrow> DietType \<Rightarrow> LimitResult" where
  "checkDailyLimits it history d =
     (let dailyMacros = calculateDailyMacros history;
          dietLimits = limits d
      in case carbs dietLimits of
           None \<Rightarrow> \<lparr> fits = True, limit_warnings = [] \<rparr>
         | Some c \<Rightarrow>
             if c \<noteq> 0 \<and> num_add (totalCarbs dailyMacros) (carbsG it) > of_int c then
               \<lparr> fits = False,
                 limit_warnings =
                   [''This would exceed your daily carb limit of '' @ numToString c @ ''g''] \<rparr>
             else \<lparr> fits = True, limit_warnings = [] \<rparr>)"

section \<open>The suggestion scorer and ranker (engines/mealSuggestions.ts)\<close>

record ScoreResult =
  score :: int
  reasons :: "string list"
  score_warnings :: "string list"

text \<open>
  \<open>calculateSuggestionScore\<close> updates \<open>score\<close>, \<open>reasons\<close> and \<open>warnings\<close> in seven
  numbered steps; each step is a function on the three of them.
\<close>

definition stepRules ::
  "DateParser \<Rightarrow> InventoryItem \<Rightarrow> UserProfile \<Rightarrow> DietaryHistoryEntry list \<Rightarrow> Date
     \<Rightarrow> ScoreResult \<Rightarrow> ScoreResult" where
  "stepRules parseDate it prof history now acc =
     (let ruleResult =
            evaluateItem parseDate
              \<lparr> item = it, currentTime = now, profile = prof, todayHistory = history \<rparr>
      in if \<not> passed ruleResult then
           acc\<lparr> score := score acc - 40,
                score_warnings := score_warnings acc @ warnings ruleResult \<rparr>
         else
           acc\<lparr> score := score acc + 20, reasons := reasons acc @ messages ruleResult \<rparr>)"

definition stepLimits ::
  "InventoryItem \<Rightarrow> UserProfile \<Rightarrow> DietaryHistoryEntry list \<Rightarrow> ScoreResult \<Rightarrow> ScoreResult" where
  "stepLimits it prof history acc =
     (let limitResult = checkDailyLimits it history (dietType prof)
      in if \<not> fits limitResult then
           acc\<lparr> score := score acc - 30,
                score_warnings := score_warnings acc @ limit_warnings limitResult \<rparr>
         else acc)"

text \<open>
  \<open>(new Date(item.expirationDate).getTime() - currentTime.getTime()) / (1000*60*60*24)\<close>:
  \<open>NaN\<close> when either date is invalid.
\<close>

definition daysUntilExpiry :: "DateParser \<Rightarrow> string \<Rightarrow> Date \<Rightarrow> rat option" where
  "daysUntilExpiry parseDate expiration now =
     (case parseDate expiration of
        None \<Rightarrow> None
      | Some e \<Rightarrow>
          (case getTime now of
             None \<Rightarrow> None
           | Some n \<Rightarrow> Some (num_div (num_sub (of_int e) (of_int n)) (1000 * 60 * 60 * 24))))"

definition stepExpiration ::
  "DateParser \<Rightarrow> InventoryItem \<Rightarrow> Date \<Rightarrow> ScoreResult \<Rightarrow> ScoreResult" where
  "stepExpiration parseDate it now acc =
     (case expirationDate it of
        None \<Rightarrow> acc
      | Some expiration \<Rightarrow>
          if expiration = [] then acc
          else
            (case daysUntilExpiry parseDate expiration now of
               None \<Rightarrow> acc
             | Some days \<Rightarrow>
                 if days \<le> 0 then
                   acc\<lparr> score := score acc - 100,
                        score_warnings := score_warnings acc @ [''This item has expired''] \<rparr>
                 else if days \<le> 2 then
                   acc\<lparr> score := score acc + 25,
                        reasons := reasons acc @
                          [''Eat soon - expiring in '' @ numToString \<lceil>days\<rceil> @ '' days''] \<rparr>
                 else if days \<le> 5 then
                   acc\<lparr> score := score acc + 10,
                        reasons := reasons acc @
                          [''Consider eating soon - expires in '' @ numToString \<lceil>days\<rceil>
                             @ '' days''] \<rparr>
                 else acc))"

definition stepGlucose :: "InventoryItem \<Rightarrow> UserProfile \<Rightarrow> ScoreResult \<Rightarrow> ScoreResult" where
  "stepGlucose it prof acc =
     (if List.member (dietaryGoals prof) GlucoseStability then
        (let acc1 =
               (if (case glycemicIndex it of None \<Rightarrow> False | Some g \<Rightarrow> g \<le> 55) then
                  acc\<lparr> score := score acc + 15,
                       reasons := reasons acc @ [''Low glycemic index - good for blood sugar''] \<rparr>
                else acc);
             acc2 =
               (if fiberG it \<ge> 3 then
                  acc1\<lparr> score := score acc1 + 10,
                        reasons := reasons acc1 @ [''High fiber helps stabilize glucose''] \<rparr>
                else acc1)
         in if proteinG it \<ge> 10 \<and> carbsG it \<le> 10 then
              acc2\<lparr> score := score acc2 + 10,
                    reasons := reasons acc2
                      @ [''Protein-rich with low carbs - stabilizes glucose''] \<rparr>
            else acc2)
      else acc)"

definition stepMealTiming :: "InventoryItem \<Rightarrow> Date \<Rightarrow> ScoreResult \<Rightarrow> ScoreResult" where
  "stepMealTiming it now acc =
     (let hour = getHours now;
          isBreakfastTime = (js_ge hour (Some 6) \<and> js_lt hour (Some 10));
          isLunchTime = (js_ge hour (Some 11) \<and> js_lt hour (Some 14));
          isDinnerTime = (js_ge hour (Some 17) \<and> js_lt hour (Some 21));
          isSnackTime = (\<not> isBreakfastTime \<and> \<not> isLunchTime \<and> \<not> isDinnerTime)
      in if isSnackTime \<and> category it = Snacks then
           acc\<lparr> score := score acc + 10, reasons := reasons acc @ [''Good snack option''] \<rparr>
         else acc)"

text \<open>\<open>todayHistory.slice(-3)\<close>: the last three entries, all of them when there are fewer.\<close>

definition lastThree :: "'a list \<Rightarrow> 'a list" where
  "lastThree xs = drop (length xs - 3) xs"

definition stepVariety ::
  "InventoryItem \<Rightarrow> DietaryHistoryEntry list \<Rightarrow> ScoreResult \<Rightarrow> ScoreResult" where
  "stepVariety it history acc =
     (let recentCategories = map (\<lambda>h. toLowerCase (h_itemName h)) (lastThree history)
      in if \<not> list_ex (\<lambda>name. includes_str name (toLowerCase (itemName it))) recentCategories
         then acc\<lparr> score := score acc + 5 \<rparr>
         else acc)"

definition stepAvailability :: "InventoryItem \<Rightarrow> ScoreResult \<Rightarrow> ScoreResult" where
  "stepAvailability it acc =
     (if (case quantity it of Unknown \<Rightarrow> False | Known q \<Rightarrow> q > 0) then
        acc\<lparr> score := score acc + 5 \<rparr>
      else acc)"

text \<open>The state of the three variables just before the \<open>return\<close>.\<close>

definition scoreBeforeClamp ::
  "DateParser \<Rightarrow> InventoryItem \<Rightarrow> UserProfile \<Rightarrow> DietaryHistoryEntry list \<Rightarrow> Date
     \<Rightarrow> ScoreResult" where
  "scoreBeforeClamp parseDate it prof history now =
     stepAvailability it
       (stepVariety it history
         (stepMealTiming it now
           (stepGlucose it prof
             (stepExpiration parseDate it now
               (stepLimits it prof history
                 (stepRules parseDate it prof history now
                   \<lparr> score = 50, reasons = [], score_warnings = [] \<rparr>))))))"

definition calculateSuggestionScore ::
  "DateParser \<Rightarrow> InventoryItem \<Rightarrow> UserProfile \<Rightarrow> DietaryHistoryEntry list \<Rightarrow> Date
     \<Rightarrow> ScoreResult" where
  "calculateSuggestionScore parseDate it prof history now =
     (let acc = scoreBeforeClamp parseDate it prof history now
      in acc\<lparr> score := max 0 (min 100 (score acc)) \<rparr>)"

record MealSuggestion =
  sug_item :: InventoryItem
  reason :: string
  sug_score :: int
  sug_warnings :: "string list"

text \<open>\<open>reasons.join('. ')\<close>\<close>

fun join :: "string \<Rightarrow> string list \<Rightarrow> string" where
  "join sep [] = []"
| "join sep [x] = x"
| "join sep (x # y # ys) = x @ sep @ join sep (y # ys)"

text \<open>The object that \<open>suggestions.push\<close> appends for an item and its score.\<close>

definition toSuggestion :: "InventoryItem \<Rightarrow> ScoreResult \<Rightarrow> MealSuggestion" where
  "toSuggestion it r =
     \<lparr> sug_item = it,
       reason = (if length (reasons r) > 0 then join ''. '' (reasons r)
                 else ''Available in your pantry''),
       sug_score = score r,
       sug_warnings = score_warnings r \<rparr>"

text \<open>
  The \<open>for (const item of inventory)\<close> loop of \<open>generateSuggestions\<close>, with its two
  \<open>continue\<close>s; \<open>suggestions\<close> is the array built so far.
\<close>

fun collectSuggestions ::
  "DateParser \<Rightarrow> UserProfile \<Rightarrow> DietaryHistoryEntry list \<Rightarrow> Date
     \<Rightarrow> InventoryItem list \<Rightarrow> MealSuggestion list \<Rightarrow> MealSuggestion list" where
  "collectSuggestions parseDate prof history now [] suggestions = suggestions"
| "collectSuggestions parseDate prof history now (it # inventory) suggestions =
     (if (case quantity it of Unknown \<Rightarrow> False | Known q \<Rightarrow> q \<le> 0) then
        collectSuggestions parseDate prof history now inventory suggestions
      else if category it = Condiments then
        collectSuggestions parseDate prof history now inventory suggestions
      else
        (let r = calculateSuggestionScore parseDate it prof history now
         in if score r \<ge> 20 then
              collectSuggestions parseDate prof history now inventory
                (suggestions @ [toSuggestion it r])
            else collectSuggestions parseDate prof history now inventory suggestions))"

text \<open>
  \<open>suggestions.sort((a, b) => b.score - a.score)\<close>. \<open>Array.prototype.sort\<close> is stable
  (ECMAScript 2019), and the comparator is a total preorder on the scores, so the result is
  the one list that is ordered by descending score and keeps equal scores in their order:
  the stable insertion sort on the negated score computes it.
\<close>

definition sortByScore :: "MealSuggestion list \<Rightarrow> MealSuggestion list" where
  "sortByScore suggestions = sort_key (\<lambda>s. - sug_score s) suggestions"

definition generateSuggestions ::
  "DateParser \<Rightarrow> InventoryItem list \<Rightarrow> UserProfile \<Rightarrow> DietaryHistoryEntry list \<Rightarrow> Date
     \<Rightarrow> MealSuggestion list" where
  "generateSuggestions parseDate inventory prof history now =
     sortByScore (collectSuggestions parseDate prof history now inventory [])"

section \<open>Fixtures of the test suites\<close>

text \<open>\<open>createTestProfile\<close> of the tests, with the diet type as argument.\<close>

definition createTestProfile :: "DietType \<Rightarrow> UserProfile" where
  "createTestProfile d =
     \<lparr> userId = ''test-user'', dietType = d, dietaryGoals = [WeightMaintenance],
       eatingSchedule =
         \<lparr> breakfast = ''07:00'', lunch = ''12:00'', dinner = ''18:00'',
           snacks = [''10:00'', ''15:00''] \<rparr>,
       allergies = [], intolerances = [], unitsPreference = Metric,
       fastingWindow = None \<rparr>"

text \<open>\<open>createTestItem\<close> of the tests: the default item.\<close>

definition createTestItem :: InventoryItem where
  "createTestItem =
     \<lparr> item_id = ''test-item-1'', itemName = ''Test Food'', quantity = Known 1,
       unit = None, category = Pantry, fiberG = 5, fatG = 10, carbsG = 15, proteinG = 20,
       calories = None, glycemicIndex = None, servingSize = None, expirationDate = None,
       lastUpdated = ''2024-01-01T00:00:00.000Z'' \<rparr>"

text \<open>The history entry of the test of \<open>checkDailyLimits\<close>, with its carbs as argument.\<close>

definition previousMeal :: "rat \<Rightarrow> DietaryHistoryEntry" where
  "previousMeal c =
     \<lparr> h_id = ''h1'', timestamp = ''2024-01-01T08:00:00.000Z'', h_itemName = ''Previous meal'',
       h_itemId = None, quantityConsumed = 1, h_unit = None,
       macrosConsumed =
         \<lparr> m_fiberG = 0, m_fatG = 10, m_carbsG = c, m_proteinG = 20, m_calories = None \<rparr>,
       dietaryRuleViolations = [], glucoseRelevanceFlag = False \<rparr>"

text \<open>A current time: 1 January 2024, 15:30 local time, as milliseconds, hours, minutes.\<close>

definition afternoon :: Date where
  "afternoon = ValidDate 1704123000000 15 30"

text \<open>
  The host's date parser on the ISO timestamps that the fixtures use (milliseconds since
  the epoch); any other string is taken as an invalid date.
\<close>

definition fixtureDates :: DateParser where
  "fixtureDates s =
     map_of
       [ (''2023-12-31T15:30:00.000Z'', 1704036600000),
         (''2024-01-01T08:00:00.000Z'', 1704096000000),
         (''2024-01-01T12:00:00.000Z'', 1704110400000),
         (''2024-01-02T15:30:00.000Z'', 1704209400000) ] s"

text \<open>A history entry with the given name, timestamp, carbs and protein.\<close>

definition meal :: "string \<Rightarrow> string \<Rightarrow> rat \<Rightarrow> rat \<Rightarrow> DietaryHistoryEntry" where
  "meal name ts c p =
     \<lparr> h_id = ''h1'', timestamp = ts, h_itemName = name,
       h_itemId = None, quantityConsumed = 1, h_unit = None,
       macrosConsumed =
         \<lparr> m_fiberG = 0, m_fatG = 10, m_carbsG = c, m_proteinG = p, m_calories = None \<rparr>,
       dietaryRuleViolations = [], glucoseRelevanceFlag = False \<rparr>"

text \<open>1 January 2024, 13:00 and 22:00 local time.\<close>

definition onePm :: Date where
  "onePm = ValidDate 1704114000000 13 0"

definition tenPm :: Date where
  "tenPm = ValidDate 1704146400000 22 0"

text \<open>A profile on intermittent fasting with the window of the source's comments.\<close>

definition fastingProfile :: "string \<Rightarrow> string \<Rightarrow> UserProfile" where
  "fastingProfile s e =
     (createTestProfile IntermittentFasting)
       \<lparr> fastingWindow := Some \<lparr> fw_start = s, fw_end = e \<rparr> \<rparr>"

text \<open>The meat item of the test of \<open>evaluateItem\<close> on a vegetarian profile.\<close>

definition chickenBreast :: InventoryItem where
  "chickenBreast = createTestItem\<lparr> category := Meat, itemName := ''Chicken Breast'' \<rparr>"

text \<open>The condiment of the test of \<open>generateSuggestions\<close>.\<close>

definition ketchup :: InventoryItem where
  "ketchup =
     \<lparr> item_id = ''condiment-1'', itemName = ''Ketchup'', quantity = Known 1,
       unit = Some ''bottle'', category = Condiments, fiberG = 0, fatG = 0, carbsG = 5,
       proteinG = 0, calories = None, glycemicIndex = None, servingSize = None,
       expirationDate = None, lastUpdated = ''2024-01-01T00:00:00.000Z'' \<rparr>"

text \<open>The item of quantity zero of the same test.\<close>

definition emptyItem :: InventoryItem where
  "emptyItem =
     \<lparr> item_id = ''empty-item'', itemName = ''Empty Item'', quantity = Known 0,
       unit = None, category = Pantry, fiberG = 0, fatG = 0, carbsG = 0,
       proteinG = 0, calories = None, glycemicIndex = None, servingSize = None,
       expirationDate = None, lastUpdated = ''2024-01-01T00:00:00.000Z'' \<rparr>"

text \<open>The accumulator with score zero: a step applied to it gives what the step adds.\<close>

definition noScore :: ScoreResult where
  "noScore = \<lparr> score = 0, reasons = [], score_warnings = [] \<rparr>"

section \<open>The evaluator on another rule table\<close>

text \<open>
  The body of \<open>evaluateItem\<close> with the rule table as an argument, to state what the
  evaluator would return on a table from which rules have been removed.
\<close>

definition evaluateWithTable :: "DietRule list \<Rightarrow> DietRuleParams \<Rightarrow> EvalResult" where
  "evaluateWithTable table ps =
     evaluateLoop ps (filter (\<lambda>rule. r_dietType rule = dietType (profile ps)) table)
       \<lparr> passed = True, messages = [], warnings = [] \<rparr>"

section \<open>Inputs on which the sums of the macros are exact\<close>

text \<open>
  A whole number of grams or calories; and a history whose five totals, as exact sums,
  stay within \<open>2^53\<close>, the range in which every whole number is a double.
\<close>

definition isWhole :: "rat \<Rightarrow> bool" where
  "isWhole v = (0 \<le> v \<and> of_int \<lfloor>v\<rfloor> = v)"




section \<open>Properties of the rule evaluator\<close>

lemma evaluateLoop_passed:
  "passed (evaluateLoop ps rules acc) =
     (passed acc \<and> \<not> (\<exists>rule\<in>set rules. (ruleType rule = Restricted \<or> ruleType rule = TimeBased)
                                       \<and> \<not> condition rule ps))"
  by (induction rules arbitrary: acc) (auto simp: evaluateRule_def Let_def)

lemma evaluateLoop_messages:
  "messages (evaluateLoop ps rules acc) =
     messages acc
       @ map message (filter (\<lambda>rule. ruleType rule = Allowed \<and> condition rule ps) rules)"
  by (induction rules arbitrary: acc) (auto simp: evaluateRule_def Let_def)

lemma evaluateLoop_warnings:
  "warnings (evaluateLoop ps rules acc) =
     warnings acc
       @ map message
           (filter (\<lambda>rule. (ruleType rule = Restricted \<or> ruleType rule = TimeBased
                             \<or> ruleType rule = Sequencing) \<and> \<not> condition rule ps) rules)"
  by (induction rules arbitrary: acc) (auto simp: evaluateRule_def Let_def)

text \<open>
  C1. For every item, current time, profile and history, \<open>evaluateItem\<close> returns
  \<open>passed = false\<close> if and only if a rule of the table that is bound to the profile's diet
  type and is of type \<open>restricted\<close> or \<open>time-based\<close> evaluates to false. The messages are
  the messages of the \<open>allowed\<close> rules of the diet that evaluate true, in table order; the
  warnings are the messages of the \<open>restricted\<close>, \<open>time-based\<close> and \<open>sequencing\<close> rules
  of the diet that evaluate false, in table order. So an \<open>allowed\<close> rule only adds a
  message and a failed \<open>sequencing\<close> rule only adds a warning: neither occurs in the
  condition for \<open>passed\<close>.
\<close>

theorem evaluateItem_verdict:
  "(passed (evaluateItem parseDate ps) = False \<longleftrightarrow>
      (\<exists>rule \<in> set (dietRules parseDate).
          r_dietType rule = dietType (profile ps)
        \<and> (ruleType rule = Restricted \<or> ruleType rule = TimeBased)
        \<and> \<not> condition rule ps))
   \<and> messages (evaluateItem parseDate ps) =
       map message (filter (\<lambda>rule. ruleType rule = Allowed \<and> condition rule ps)
         (getRulesForDiet parseDate (dietType (profile ps))))
   \<and> warnings (evaluateItem parseDate ps) =
       map message
         (filter (\<lambda>rule. (ruleType rule = Restricted \<or> ruleType rule = TimeBased
                           \<or> ruleType rule = Sequencing) \<and> \<not> condition rule ps)
           (getRulesForDiet parseDate (dietType (profile ps))))"
  unfolding evaluateItem_def
  by (simp add: evaluateLoop_passed evaluateLoop_messages evaluateLoop_warnings
        getRulesForDiet_def) blast

theorem evaluateItem_verdict_witness:
  "passed (evaluateItem fixtureDates
      \<lparr> item = chickenBreast, currentTime = afternoon,
        profile = createTestProfile Vegetarian, todayHistory = [] \<rparr>) = False
   \<and> (\<exists>rule \<in> set (dietRules fixtureDates).
          r_dietType rule = Vegetarian
        \<and> (ruleType rule = Restricted \<or> ruleType rule = TimeBased)
        \<and> \<not> condition rule \<lparr> item = chickenBreast, currentTime = afternoon,
               profile = createTestProfile Vegetarian, todayHistory = [] \<rparr>)
   \<and> warnings (evaluateItem fixtureDates
      \<lparr> item = chickenBreast, currentTime = afternoon,
        profile = createTestProfile Vegetarian, todayHistory = [] \<rparr>)
     = [''This food contains meat'']"
proof -
  let ?ps = "\<lparr> item = chickenBreast, currentTime = afternoon,
        profile = createTestProfile Vegetarian, todayHistory = [] \<rparr>"
  have failed: "passed (evaluateItem fixtureDates ?ps) = False"
    by code_simp
  have w: "warnings (evaluateItem fixtureDates ?ps) = [''This food contains meat'']"
    by code_simp
  have d: "dietType (profile ?ps) = Vegetarian"
    by (simp add: createTestProfile_def)
  from evaluateItem_verdict [of fixtureDates ?ps] failed w d show ?thesis
    by simp
qed

subsection \<open>Rule types the evaluator does not look at\<close>

lemma evaluateRule_ignored:
  "ruleType rule = MacroThreshold \<or> ruleType rule = DailyLimit
     \<Longrightarrow> evaluateRule ps rule acc = acc"
  by (auto simp: evaluateRule_def Let_def)

lemma evaluateLoop_filter_ignored:
  "(\<And>rule. rule \<in> set rules \<Longrightarrow> \<not> keep rule
       \<Longrightarrow> ruleType rule = MacroThreshold \<or> ruleType rule = DailyLimit)
   \<Longrightarrow> evaluateLoop ps (filter keep rules) acc = evaluateLoop ps rules acc"
  by (induction rules arbitrary: acc) (auto simp: evaluateRule_ignored)

lemma evaluateWithTable_filter_ignored:
  assumes "\<And>rule. rule \<in> set table \<Longrightarrow> \<not> keep rule
             \<Longrightarrow> ruleType rule = MacroThreshold \<or> ruleType rule = DailyLimit"
  shows "evaluateWithTable (filter keep table) ps = evaluateWithTable table ps"
proof -
  have swap: "filter (\<lambda>rule. r_dietType rule = d) (filter keep table)
      = filter keep (filter (\<lambda>rule. r_dietType rule = d) table)" for d
    by (induction table) auto
  have "evaluateLoop ps (filter keep (filter (\<lambda>rule. r_dietType rule = d) table)) acc
      = evaluateLoop ps (filter (\<lambda>rule. r_dietType rule = d) table) acc" for d acc
    by (rule evaluateLoop_filter_ignored) (use assms in auto)
  then show ?thesis
    unfolding evaluateWithTable_def swap by simp
qed

lemma evaluateItem_evaluateWithTable:
  "evaluateItem parseDate ps = evaluateWithTable (dietRules parseDate) ps"
  by (simp add: evaluateItem_def evaluateWithTable_def getRulesForDiet_def)

lemma only_keto_low_carb_has_its_id:
  "rule \<in> set (dietRules parseDate) \<Longrightarrow> rule_id rule = ''keto-low-carb''
     \<Longrightarrow> ruleType rule = MacroThreshold"
  unfolding dietRules_def
  by (auto simp: low_gi_allowed_def low_gi_fiber_def keto_low_carb_def keto_high_fat_def
      keto_restricted_def med_vegetables_def med_healthy_fats_def paleo_whole_foods_def
      paleo_restricted_def whole30_restricted_def whole30_whole_foods_def if_fasting_window_def
      dash_low_sodium_def dash_vegetables_def vegan_no_animal_def vegan_protein_def
      vegetarian_no_meat_def high_protein_priority_def high_protein_sequence_def
      low_fodmap_restricted_def flexitarian_mostly_plants_def)

text \<open>
  C10. \<open>evaluateItem\<close> ignores every rule whose type is \<open>macro-threshold\<close> or
  \<open>daily-limit\<close>: on every input its result (passed, messages, warnings) is the result of
  the evaluator on the rule table with all such rules removed. In particular it is the
  result on the table without the keto rule \<open>keto-low-carb\<close>, whatever that rule's
  condition evaluates to.
\<close>

theorem evaluateItem_ignores_macro_threshold_and_daily_limit:
  "evaluateItem parseDate ps =
     evaluateWithTable
       (filter (\<lambda>rule. ruleType rule \<noteq> MacroThreshold \<and> ruleType rule \<noteq> DailyLimit)
          (dietRules parseDate)) ps
   \<and> evaluateItem parseDate ps =
     evaluateWithTable (filter (\<lambda>rule. rule_id rule \<noteq> ''keto-low-carb'') (dietRules parseDate)) ps"
proof
  show "evaluateItem parseDate ps =
     evaluateWithTable
       (filter (\<lambda>rule. ruleType rule \<noteq> MacroThreshold \<and> ruleType rule \<noteq> DailyLimit)
          (dietRules parseDate)) ps"
    unfolding evaluateItem_evaluateWithTable
    by (rule evaluateWithTable_filter_ignored [symmetric]) auto
  show "evaluateItem parseDate ps =
     evaluateWithTable (filter (\<lambda>rule. rule_id rule \<noteq> ''keto-low-carb'') (dietRules parseDate)) ps"
    unfolding evaluateItem_evaluateWithTable
    by (rule evaluateWithTable_filter_ignored [symmetric])
       (use only_keto_low_carb_has_its_id in auto)
qed

theorem evaluateItem_ignores_witness:
  "evaluateItem fixtureDates
      \<lparr> item = createTestItem, currentTime = afternoon,
        profile = createTestProfile Keto, todayHistory = [] \<rparr>
   = \<lparr> passed = True, messages = [''Good fat source for keto''], warnings = [] \<rparr>
   \<and> \<not> condition keto_low_carb \<lparr> item = createTestItem, currentTime = afternoon,
        profile = createTestProfile Keto, todayHistory = [] \<rparr>
   \<and> evaluateWithTable (filter (\<lambda>rule. rule_id rule \<noteq> ''keto-low-carb'') (dietRules fixtureDates))
      \<lparr> item = createTestItem, currentTime = afternoon,
        profile = createTestProfile Keto, todayHistory = [] \<rparr>
   = \<lparr> passed = True, messages = [''Good fat source for keto''], warnings = [] \<rparr>"
proof -
  let ?ps = "\<lparr> item = createTestItem, currentTime = afternoon,
        profile = createTestProfile Keto, todayHistory = [] \<rparr>"
  have e: "evaluateItem fixtureDates ?ps
      = \<lparr> passed = True, messages = [''Good fat source for keto''], warnings = [] \<rparr>"
    by code_simp
  have c: "\<not> condition keto_low_carb ?ps"
    by (simp add: keto_low_carb_def createTestItem_def)
  have k: "evaluateItem fixtureDates ?ps
      = evaluateWithTable (filter (\<lambda>rule. rule_id rule \<noteq> ''keto-low-carb'') (dietRules fixtureDates)) ?ps"
    using evaluateItem_ignores_macro_threshold_and_daily_limit [of fixtureDates ?ps]
    by (rule conjunct2)
  show ?thesis
    unfolding k [symmetric] using e c by (intro conjI)
qed

section \<open>The fasting window rule\<close>

lemma if_fasting_window_condition:
  "condition if_fasting_window ps =
     (case fastingWindow (profile ps) of
        None \<Rightarrow> True
      | Some w \<Rightarrow>
          (if js_gt (windowMinutes (fw_start w)) (windowMinutes (fw_end w))
           then js_lt (nowMinutes (currentTime ps)) (windowMinutes (fw_start w))
                \<and> js_ge (nowMinutes (currentTime ps)) (windowMinutes (fw_end w))
           else js_ge (nowMinutes (currentTime ps)) (windowMinutes (fw_end w))
                \<and> js_lt (nowMinutes (currentTime ps)) (windowMinutes (fw_start w))))"
  by (simp add: if_fasting_window_def Let_def split: option.splits)

lemma getRulesForDiet_IntermittentFasting:
  "getRulesForDiet parseDate IntermittentFasting = [if_fasting_window]"
  unfolding getRulesForDiet_def dietRules_def
  by (simp add: low_gi_allowed_def low_gi_fiber_def keto_low_carb_def keto_high_fat_def
      keto_restricted_def med_vegetables_def med_healthy_fats_def paleo_whole_foods_def
      paleo_restricted_def whole30_restricted_def whole30_whole_foods_def if_fasting_window_def
      dash_low_sodium_def dash_vegetables_def vegan_no_animal_def vegan_protein_def
      vegetarian_no_meat_def high_protein_priority_def high_protein_sequence_def
      low_fodmap_restricted_def flexitarian_mostly_plants_def)

lemma evaluateItem_IntermittentFasting:
  "dietType (profile ps) = IntermittentFasting \<Longrightarrow>
   evaluateItem parseDate ps =
     (if condition if_fasting_window ps then \<lparr> passed = True, messages = [], warnings = [] \<rparr>
      else \<lparr> passed = False, messages = [],
             warnings = [''You are currently in your fasting window''] \<rparr>)"
  by (simp add: evaluateItem_def getRulesForDiet_IntermittentFasting evaluateRule_def)
     (simp add: if_fasting_window_def)

text \<open>
  C2, as stated, fails. With the window 20:00 to 12:00 (start 1200 minutes, end 720
  minutes, so the window wraps midnight) and the current time 13:00 (780 minutes),
  \<open>now < start\<close> and \<open>now \<ge> end\<close> hold, and the claim says that the rule condition is
  false, the evaluation fails and the warning is appended. The code returns true for the
  condition, and the evaluation passes with no warning.
\<close>

theorem if_fasting_window_claim_counterexample:
  "windowMinutes ''20:00'' = Some 1200 \<and> windowMinutes ''12:00'' = Some 720
   \<and> nowMinutes onePm = Some 780
   \<and> (1200::int) > 720 \<and> (780::int) < 1200 \<and> (780::int) \<ge> 720
   \<and> condition if_fasting_window
        \<lparr> item = createTestItem, currentTime = onePm,
          profile = fastingProfile ''20:00'' ''12:00'', todayHistory = [] \<rparr>
   \<and> evaluateItem fixtureDates
        \<lparr> item = createTestItem, currentTime = onePm,
          profile = fastingProfile ''20:00'' ''12:00'', todayHistory = [] \<rparr>
      = \<lparr> passed = True, messages = [], warnings = [] \<rparr>"
  by code_simp

text \<open>
  C2, amended. With the fasting window's start and end and the current time as
  minutes since midnight, and \<open>start > end\<close> (the window wraps midnight): the rule
  condition is true, the user being in the eating window, exactly when \<open>now < start\<close> and
  \<open>now \<ge> end\<close>; in every other case the user is reported as in the fasting window: on a
  profile on intermittent fasting the evaluation then fails and the fasting-window warning
  is appended.
\<close>

theorem if_fasting_window_wrapping:
  assumes "fastingWindow (profile ps) = Some w"
    and "windowMinutes (fw_start w) = Some start"
    and "windowMinutes (fw_end w) = Some end'"
    and "nowMinutes (currentTime ps) = Some now"
    and "start > end'"
  shows "(condition if_fasting_window ps \<longleftrightarrow> now < start \<and> now \<ge> end')
       \<and> (dietType (profile ps) = IntermittentFasting \<longrightarrow>
            evaluateItem parseDate ps =
              (if now < start \<and> now \<ge> end'
               then \<lparr> passed = True, messages = [], warnings = [] \<rparr>
               else \<lparr> passed = False, messages = [],
                      warnings = [''You are currently in your fasting window''] \<rparr>))"
  using assms
  by (simp add: evaluateItem_IntermittentFasting if_fasting_window_condition
      js_gt_def js_lt_def js_ge_def js_le_def)

theorem if_fasting_window_wrapping_witness:
  "condition if_fasting_window
        \<lparr> item = createTestItem, currentTime = onePm,
          profile = fastingProfile ''20:00'' ''12:00'', todayHistory = [] \<rparr>
   \<and> evaluateItem fixtureDates
        \<lparr> item = createTestItem, currentTime = tenPm,
          profile = fastingProfile ''20:00'' ''12:00'', todayHistory = [] \<rparr>
      = \<lparr> passed = False, messages = [], warnings = [''You are currently in your fasting window''] \<rparr>"
proof -
  let ?w = "\<lparr> fw_start = ''20:00'', fw_end = ''12:00'' \<rparr>"
  let ?ps = "\<lambda>t. \<lparr> item = createTestItem, currentTime = t,
          profile = fastingProfile ''20:00'' ''12:00'', todayHistory = [] \<rparr>"
  have w: "fastingWindow (profile (?ps t)) = Some ?w" for t
    by (simp add: fastingProfile_def)
  have d: "dietType (profile (?ps t)) = IntermittentFasting" for t
    by (simp add: fastingProfile_def createTestProfile_def)
  have s: "windowMinutes (fw_start ?w) = Some 1200" by code_simp
  have e: "windowMinutes (fw_end ?w) = Some 720" by code_simp
  have n1: "nowMinutes (currentTime (?ps onePm)) = Some 780" by code_simp
  have n2: "nowMinutes (currentTime (?ps tenPm)) = Some 1320" by code_simp
  have lt: "(1200::int) > 720" by simp
  from if_fasting_window_wrapping [OF w s e n1 lt, of fixtureDates]
       if_fasting_window_wrapping [OF w s e n2 lt, of fixtureDates] d
  show ?thesis by simp
qed

text \<open>
  In the other branch, \<open>start \<le> end\<close>, the source tests \<open>now >= end && now < start\<close>,
  which no time satisfies: the condition is false at every time of the day.
\<close>

lemma if_fasting_window_not_wrapping:
  assumes "fastingWindow (profile ps) = Some w"
    and "windowMinutes (fw_start w) = Some start"
    and "windowMinutes (fw_end w) = Some end'"
    and "start \<le> end'"
  shows "\<not> condition if_fasting_window ps"
  using assms
  by (cases "nowMinutes (currentTime ps)")
     (simp_all add: if_fasting_window_condition js_gt_def js_lt_def js_ge_def js_le_def)

section \<open>The protein-before-carbs rule\<close>

lemma high_protein_sequence_condition:
  "condition (high_protein_sequence parseDate) ps =
     (if \<not> isHighProtein (item ps) then True
      else
        (case lastElem (filter (\<lambda>h. m_carbsG (macrosConsumed h) > 15) (todayHistory ps)) of
           None \<Rightarrow> True
         | Some c \<Rightarrow>
             (case lastElem (filter (\<lambda>h. m_proteinG (macrosConsumed h) > 15) (todayHistory ps)) of
                None \<Rightarrow> False
              | Some p \<Rightarrow> js_lt (parseDate (timestamp p)) (parseDate (timestamp c)))))"
  by (simp add: high_protein_sequence_def Let_def)

text \<open>
  C3, as stated, fails. The candidate item has 20 g of protein; today's history is a
  meal with 30 g of carbs at 08:00 followed by a meal with 30 g of protein at 12:00. An
  entry with more than 15 g of protein exists whose timestamp is strictly after the
  timestamp of the latest entry with more than 15 g of carbs, so the claim says that the
  rule passes. The code compares \<open>lastProteinMeal < lastCarbMeal\<close>, which is false here:
  the rule fails and its warning is appended.
\<close>

theorem high_protein_sequence_claim_counterexample:
  "proteinG createTestItem = 20
   \<and> m_carbsG (macrosConsumed (meal ''Oatmeal'' ''2024-01-01T08:00:00.000Z'' 30 5)) = 30
   \<and> m_proteinG (macrosConsumed (meal ''Oatmeal'' ''2024-01-01T08:00:00.000Z'' 30 5)) = 5
   \<and> m_carbsG (macrosConsumed (meal ''Chicken'' ''2024-01-01T12:00:00.000Z'' 0 30)) = 0
   \<and> m_proteinG (macrosConsumed (meal ''Chicken'' ''2024-01-01T12:00:00.000Z'' 0 30)) = 30
   \<and> js_gt (fixtureDates ''2024-01-01T12:00:00.000Z'') (fixtureDates ''2024-01-01T08:00:00.000Z'')
   \<and> \<not> condition (high_protein_sequence fixtureDates)
        \<lparr> item = createTestItem, currentTime = afternoon,
          profile = createTestProfile HighProtein,
          todayHistory =
            [meal ''Oatmeal'' ''2024-01-01T08:00:00.000Z'' 30 5,
             meal ''Chicken'' ''2024-01-01T12:00:00.000Z'' 0 30] \<rparr>
   \<and> warnings (evaluateItem fixtureDates
        \<lparr> item = createTestItem, currentTime = afternoon,
          profile = createTestProfile HighProtein,
          todayHistory =
            [meal ''Oatmeal'' ''2024-01-01T08:00:00.000Z'' 30 5,
             meal ''Chicken'' ''2024-01-01T12:00:00.000Z'' 0 30] \<rparr>)
      = [''Try to eat protein before carbs for better satiety'']"
  by code_simp

text \<open>
  C3, amended. Let the carb meals be today's entries with more than 15 g of carbs and
  the protein meals those with more than 15 g of protein, each in history order. For a
  candidate item with less than 15 g of protein the rule passes. For a candidate item with
  at least 15 g of protein the rule passes exactly when there is no carb meal, or there is
  a protein meal and the timestamp of the last protein meal is strictly before the
  timestamp of the last carb meal; it fails exactly when there is a carb meal and either
  there is no protein meal or the timestamp of the last protein meal is not strictly before
  that of the last carb meal (it is later, equal, or one of the two is not a valid date).
\<close>

theorem high_protein_sequence_passes_iff:
  fixes parseDate :: DateParser and ps :: DietRuleParams
  assumes "carbMeals = filter (\<lambda>h. m_carbsG (macrosConsumed h) > 15) (todayHistory ps)"
      and "proteinMeals = filter (\<lambda>h. m_proteinG (macrosConsumed h) > 15) (todayHistory ps)"
  shows "(proteinG (item ps) < 15 \<longrightarrow> condition (high_protein_sequence parseDate) ps)
       \<and> (proteinG (item ps) \<ge> 15 \<longrightarrow>
            (condition (high_protein_sequence parseDate) ps \<longleftrightarrow>
               carbMeals = []
             \<or> (proteinMeals \<noteq> []
                \<and> js_lt (parseDate (timestamp (last proteinMeals)))
                        (parseDate (timestamp (last carbMeals))))))
       \<and> (proteinG (item ps) \<ge> 15 \<longrightarrow>
            (\<not> condition (high_protein_sequence parseDate) ps \<longleftrightarrow>
               carbMeals \<noteq> []
             \<and> (proteinMeals = []
                \<or> \<not> js_lt (parseDate (timestamp (last proteinMeals)))
                          (parseDate (timestamp (last carbMeals))))))"
  unfolding assms
  by (auto simp: high_protein_sequence_condition isHighProtein_def lastElem_def)

theorem high_protein_sequence_passes_iff_witness:
  "proteinG createTestItem \<ge> 15
   \<and> condition (high_protein_sequence fixtureDates)
        \<lparr> item = createTestItem, currentTime = afternoon,
          profile = createTestProfile HighProtein,
          todayHistory =
            [meal ''Chicken'' ''2024-01-01T08:00:00.000Z'' 0 30,
             meal ''Oatmeal'' ''2024-01-01T12:00:00.000Z'' 30 5] \<rparr>
   \<and> js_lt (fixtureDates ''2024-01-01T08:00:00.000Z'') (fixtureDates ''2024-01-01T12:00:00.000Z'')"
proof -
  let ?chicken = "meal ''Chicken'' ''2024-01-01T08:00:00.000Z'' 0 30"
  let ?oatmeal = "meal ''Oatmeal'' ''2024-01-01T12:00:00.000Z'' 30 5"
  let ?ps = "\<lparr> item = createTestItem, currentTime = afternoon,
          profile = createTestProfile HighProtein, todayHistory = [?chicken, ?oatmeal] \<rparr>"
  have p: "proteinG (item ?ps) \<ge> 15"
    by (simp add: createTestItem_def)
  have c: "filter (\<lambda>h. m_carbsG (macrosConsumed h) > 15) (todayHistory ?ps) = [?oatmeal]"
    by (simp add: meal_def)
  have q: "filter (\<lambda>h. m_proteinG (macrosConsumed h) > 15) (todayHistory ?ps) = [?chicken]"
    by (simp add: meal_def)
  have t: "js_lt (fixtureDates ''2024-01-01T08:00:00.000Z'') (fixtureDates ''2024-01-01T12:00:00.000Z'')"
    by code_simp
  have ts: "timestamp ?chicken = ''2024-01-01T08:00:00.000Z''"
           "timestamp ?oatmeal = ''2024-01-01T12:00:00.000Z''"
    by (simp_all add: meal_def)
  from high_protein_sequence_passes_iff [OF c [symmetric] q [symmetric], of fixtureDates] p t ts
  have "condition (high_protein_sequence fixtureDates) ?ps"
    by simp
  with p t show ?thesis by simp
qed

section \<open>Daily macros\<close>

subsection \<open>Whole numbers up to \<open>2^53\<close> are doubles\<close>

lemma roundTiesToEven_of_int [simp]: "roundTiesToEven (of_int k) = k"
  by (simp add: roundTiesToEven_def)









lemma isWhole_nonneg: "isWhole a \<Longrightarrow> 0 \<le> a"
  by (simp add: isWhole_def)




lemma isWhole_0 [simp]: "isWhole 0"
  by (simp add: isWhole_def)








section \<open>Daily limits\<close>

lemma numToString_ceilings: "numToString 50 = ''50''" "numToString 130 = ''130''"
  by code_simp+

lemma checkDailyLimits_cases:
  "checkDailyLimits it history d =
     (if d = Keto \<and> num_add (totalCarbs (calculateDailyMacros history)) (carbsG it) > 50 then
        \<lparr> fits = False,
          limit_warnings = [''This would exceed your daily carb limit of 50g''] \<rparr>
      else if d = LowGlycemic
           \<and> num_add (totalCarbs (calculateDailyMacros history)) (carbsG it) > 130 then
        \<lparr> fits = False,
          limit_warnings = [''This would exceed your daily carb limit of 130g''] \<rparr>
      else \<lparr> fits = True, limit_warnings = [] \<rparr>)"
  by (cases d) (simp_all add: checkDailyLimits_def limits_def numToString_ceilings)

lemma warning_mentions_ceiling:
  "includes_str ''This would exceed your daily carb limit of 50g'' ''50''"
  "includes_str ''This would exceed your daily carb limit of 130g'' ''130''"
  by code_simp+

lemma num_add_25_30: "num_add 25 30 = 55"
  by code_simp

text \<open>
  C4. For every item, history and diet type, \<open>checkDailyLimits\<close> returns
  \<open>fits = false\<close> exactly when the diet is keto and the carbs of the history plus the carbs
  of the item exceed 50, or the diet is low-glycemic and they exceed 130; the only warning
  then names the ceiling of the diet. Otherwise it returns \<open>fits = true\<close> and no warning;
  that is so for every diet without a carbs ceiling, among them high-protein, whose limit
  of 150 g of protein is in the table and is never compared. With 25 g of carbs today and
  an item of 30 g on keto, \<open>fits\<close> is false and the warning mentions 50.
\<close>

theorem checkDailyLimits_carbs_ceiling:
  "(fits (checkDailyLimits it history d) = False \<longleftrightarrow>
      (d = Keto \<and> num_add (totalCarbs (calculateDailyMacros history)) (carbsG it) > 50)
    \<or> (d = LowGlycemic
        \<and> num_add (totalCarbs (calculateDailyMacros history)) (carbsG it) > 130))
   \<and> (fits (checkDailyLimits it history d) = False \<longrightarrow>
        (\<exists>c. carbs (limits d) = Some c
           \<and> limit_warnings (checkDailyLimits it history d)
               = [''This would exceed your daily carb limit of '' @ numToString c @ ''g'']
           \<and> includes_str
               (''This would exceed your daily carb limit of '' @ numToString c @ ''g'')
               (numToString c)))
   \<and> (fits (checkDailyLimits it history d) = True \<longrightarrow>
        limit_warnings (checkDailyLimits it history d) = [])
   \<and> carbs (limits d) = (if d = Keto then Some 50 else if d = LowGlycemic then Some 130 else None)
   \<and> (carbs (limits d) = None \<longrightarrow>
        checkDailyLimits it history d = \<lparr> fits = True, limit_warnings = [] \<rparr>)
   \<and> protein (limits HighProtein) = Some 150
   \<and> checkDailyLimits it history HighProtein = \<lparr> fits = True, limit_warnings = [] \<rparr>
   \<and> (totalCarbs (calculateDailyMacros history) = 25 \<and> carbsG it = 30 \<longrightarrow>
        fits (checkDailyLimits it history Keto) = False
      \<and> limit_warnings (checkDailyLimits it history Keto)
          = [''This would exceed your daily carb limit of 50g'']
      \<and> includes_str ''This would exceed your daily carb limit of 50g'' ''50'')"
proof -
  have lim: "carbs (limits d) = (if d = Keto then Some 50 else if d = LowGlycemic then Some 130 else None)"
    by (cases d) (simp_all add: limits_def)
  have prot: "protein (limits HighProtein) = Some 150"
    by (simp add: limits_def)
  show ?thesis
    unfolding checkDailyLimits_cases lim prot
    by (simp add: numToString_ceilings warning_mentions_ceiling num_add_25_30)
qed

theorem checkDailyLimits_carbs_ceiling_witness:
  "totalCarbs (calculateDailyMacros [previousMeal 25]) = 25
   \<and> carbsG (createTestItem\<lparr> carbsG := 30 \<rparr>) = 30
   \<and> checkDailyLimits (createTestItem\<lparr> carbsG := 30 \<rparr>) [previousMeal 25] Keto
      = \<lparr> fits = False,
          limit_warnings = [''This would exceed your daily carb limit of 50g''] \<rparr>"
proof -
  have t: "totalCarbs (calculateDailyMacros [previousMeal 25]) = 25"
    by code_simp
  have c: "carbsG (createTestItem\<lparr> carbsG := 30 \<rparr>) = 30"
    by simp
  from checkDailyLimits_carbs_ceiling [of "createTestItem\<lparr> carbsG := 30 \<rparr>" "[previousMeal 25]" Keto]
       t c
  show ?thesis
    by (cases "checkDailyLimits (createTestItem\<lparr> carbsG := 30 \<rparr>) [previousMeal 25] Keto") simp
qed

section \<open>The suggestion scorer\<close>

lemma score_stepRules:
  "score (stepRules parseDate it prof history now acc)
     = score acc + score (stepRules parseDate it prof history now noScore)"
  by (simp add: stepRules_def noScore_def Let_def)

lemma score_stepLimits:
  "score (stepLimits it prof history acc) = score acc + score (stepLimits it prof history noScore)"
  by (simp add: stepLimits_def noScore_def Let_def)

lemma score_stepExpiration:
  "score (stepExpiration parseDate it now acc)
     = score acc + score (stepExpiration parseDate it now noScore)"
  by (simp add: stepExpiration_def noScore_def split: option.splits)

lemma score_stepGlucose:
  "score (stepGlucose it prof acc) = score acc + score (stepGlucose it prof noScore)"
  by (simp add: stepGlucose_def noScore_def Let_def)

lemma score_stepMealTiming:
  "score (stepMealTiming it now acc) = score acc + score (stepMealTiming it now noScore)"
  by (simp add: stepMealTiming_def noScore_def Let_def)

lemma score_stepVariety:
  "score (stepVariety it history acc) = score acc + score (stepVariety it history noScore)"
  by (simp add: stepVariety_def noScore_def Let_def)

lemma score_stepAvailability:
  "score (stepAvailability it acc) = score acc + score (stepAvailability it noScore)"
  by (simp add: stepAvailability_def noScore_def)

lemma score_scoreBeforeClamp:
  "score (scoreBeforeClamp parseDate it prof history now)
     = 50 + score (stepRules parseDate it prof history now noScore)
          + score (stepLimits it prof history noScore)
          + score (stepExpiration parseDate it now noScore)
          + score (stepGlucose it prof noScore)
          + score (stepMealTiming it now noScore)
          + score (stepVariety it history noScore)
          + score (stepAvailability it noScore)"
  unfolding scoreBeforeClamp_def
  apply (subst score_stepAvailability)
  apply (subst score_stepVariety)
  apply (subst score_stepMealTiming)
  apply (subst score_stepGlucose)
  apply (subst score_stepExpiration)
  apply (subst score_stepLimits)
  apply (subst score_stepRules)
  apply simp
  done

lemma score_calculateSuggestionScore:
  "score (calculateSuggestionScore parseDate it prof history now)
     = max 0 (min 100 (score (scoreBeforeClamp parseDate it prof history now)))"
  by (simp add: calculateSuggestionScore_def Let_def)

text \<open>
  C7. For every item, profile, history and current time the score that
  \<open>calculateSuggestionScore\<close> returns lies between 0 and 100: it is the base of 50 plus
  what each of the seven steps adds or subtracts, clamped to the interval from 0 to 100 at
  the end. An item of 500 g of carbs on a keto profile that has expired has the sum - 50
  and the score 0.
\<close>

theorem calculateSuggestionScore_clamped:
  "0 \<le> score (calculateSuggestionScore parseDate it prof history now)
   \<and> score (calculateSuggestionScore parseDate it prof history now) \<le> 100
   \<and> score (calculateSuggestionScore parseDate it prof history now)
       = max 0 (min 100
           (50 + score (stepRules parseDate it prof history now noScore)
               + score (stepLimits it prof history noScore)
               + score (stepExpiration parseDate it now noScore)
               + score (stepGlucose it prof noScore)
               + score (stepMealTiming it now noScore)
               + score (stepVariety it history noScore)
               + score (stepAvailability it noScore)))"
  unfolding score_calculateSuggestionScore score_scoreBeforeClamp
  by simp

theorem calculateSuggestionScore_clamped_witness:
  "score (scoreBeforeClamp fixtureDates
       (createTestItem\<lparr> carbsG := 500, expirationDate := Some ''2023-12-31T15:30:00.000Z'' \<rparr>)
       (createTestProfile Keto) [] afternoon) = - 50
   \<and> score (calculateSuggestionScore fixtureDates
       (createTestItem\<lparr> carbsG := 500, expirationDate := Some ''2023-12-31T15:30:00.000Z'' \<rparr>)
       (createTestProfile Keto) [] afternoon) = 0"
proof -
  let ?it = "createTestItem\<lparr> carbsG := 500, expirationDate := Some ''2023-12-31T15:30:00.000Z'' \<rparr>"
  have raw: "score (scoreBeforeClamp fixtureDates ?it (createTestProfile Keto) [] afternoon) = - 50"
    by code_simp
  from calculateSuggestionScore_clamped [of fixtureDates ?it "createTestProfile Keto" "[]" afternoon]
  have "score (calculateSuggestionScore fixtureDates ?it (createTestProfile Keto) [] afternoon)
      = max 0 (min 100 (score (scoreBeforeClamp fixtureDates ?it (createTestProfile Keto) [] afternoon)))"
    unfolding score_scoreBeforeClamp by (rule conjunct2 [THEN conjunct2])
  with raw show ?thesis by simp
qed

section \<open>Expiration\<close>

lemma evaluateLoop_cong:
  "(\<And>rule. rule \<in> set rules \<Longrightarrow> condition rule ps = condition rule ps')
     \<Longrightarrow> evaluateLoop ps rules acc = evaluateLoop ps' rules acc"
  by (induction rules arbitrary: acc) (simp_all add: evaluateRule_def)

lemma dietRules_ignore_expirationDate:
  "rule \<in> set (dietRules parseDate) \<Longrightarrow>
     condition rule \<lparr> item = it\<lparr> expirationDate := x \<rparr>, currentTime = now, profile = prof,
                      todayHistory = history \<rparr>
   = condition rule \<lparr> item = it, currentTime = now, profile = prof, todayHistory = history \<rparr>"
  unfolding dietRules_def
  by (auto simp: low_gi_allowed_def low_gi_fiber_def keto_low_carb_def keto_high_fat_def
      keto_restricted_def med_vegetables_def med_healthy_fats_def paleo_whole_foods_def
      paleo_restricted_def whole30_restricted_def whole30_whole_foods_def if_fasting_window_def
      dash_low_sodium_def dash_vegetables_def vegan_no_animal_def vegan_protein_def
      vegetarian_no_meat_def high_protein_priority_def high_protein_sequence_def
      low_fodmap_restricted_def flexitarian_mostly_plants_def
      isLowGI_def isHighFiber_def isHighFat_def isVegan_def isVegetarian_def isHighProtein_def
      Let_def split: option.splits)

lemma evaluateItem_ignores_expirationDate:
  "evaluateItem parseDate \<lparr> item = it\<lparr> expirationDate := x \<rparr>, currentTime = now,
                            profile = prof, todayHistory = history \<rparr>
   = evaluateItem parseDate \<lparr> item = it, currentTime = now, profile = prof,
                              todayHistory = history \<rparr>"
proof -
  have "evaluateLoop \<lparr> item = it\<lparr> expirationDate := x \<rparr>, currentTime = now,
                            profile = prof, todayHistory = history \<rparr>
          (getRulesForDiet parseDate (dietType prof)) acc
      = evaluateLoop \<lparr> item = it, currentTime = now, profile = prof, todayHistory = history \<rparr>
          (getRulesForDiet parseDate (dietType prof)) acc" for acc
  proof (rule evaluateLoop_cong)
    fix rule
    assume "rule \<in> set (getRulesForDiet parseDate (dietType prof))"
    then have "rule \<in> set (dietRules parseDate)"
      by (simp add: getRulesForDiet_def)
    then show "condition rule \<lparr> item = it\<lparr> expirationDate := x \<rparr>, currentTime = now,
                            profile = prof, todayHistory = history \<rparr>
      = condition rule \<lparr> item = it, currentTime = now, profile = prof, todayHistory = history \<rparr>"
      by (rule dietRules_ignore_expirationDate)
  qed
  then show ?thesis
    by (simp add: evaluateItem_def)
qed

lemma other_steps_ignore_expirationDate:
  "stepRules parseDate (it\<lparr> expirationDate := x \<rparr>) prof history now acc
     = stepRules parseDate it prof history now acc"
  "stepLimits (it\<lparr> expirationDate := x \<rparr>) prof history acc = stepLimits it prof history acc"
  "stepGlucose (it\<lparr> expirationDate := x \<rparr>) prof acc = stepGlucose it prof acc"
  "stepMealTiming (it\<lparr> expirationDate := x \<rparr>) now acc = stepMealTiming it now acc"
  "stepVariety (it\<lparr> expirationDate := x \<rparr>) history acc = stepVariety it history acc"
  "stepAvailability (it\<lparr> expirationDate := x \<rparr>) acc = stepAvailability it acc"
  by (simp_all add: stepRules_def evaluateItem_ignores_expirationDate stepLimits_def
      checkDailyLimits_def stepGlucose_def stepMealTiming_def stepVariety_def
      stepAvailability_def Let_def split: option.splits)

lemma stepExpiration_cases:
  "stepExpiration parseDate it now acc =
     (case expirationDate it of
        None \<Rightarrow> acc
      | Some expiration \<Rightarrow>
          if expiration = [] then acc
          else
            (case daysUntilExpiry parseDate expiration now of
               None \<Rightarrow> acc
             | Some days \<Rightarrow>
                 if days \<le> 0 then
                   acc\<lparr> score := score acc - 100,
                        score_warnings := score_warnings acc @ [''This item has expired''] \<rparr>
                 else if days \<le> 2 then
                   acc\<lparr> score := score acc + 25,
                        reasons := reasons acc @
                          [''Eat soon - expiring in '' @ numToString \<lceil>days\<rceil> @ '' days''] \<rparr>
                 else if days \<le> 5 then
                   acc\<lparr> score := score acc + 10,
                        reasons := reasons acc @
                          [''Consider eating soon - expires in '' @ numToString \<lceil>days\<rceil>
                             @ '' days''] \<rparr>
                 else acc))"
  by (simp add: stepExpiration_def)

lemma expired_warning_mentions_expired:
  "includes_str ''This item has expired'' ''expired''"
  by code_simp

lemma scoreBeforeClamp_expiring_soon:
  assumes "expiration \<noteq> []"
    and "daysUntilExpiry parseDate expiration now = Some days"
    and "0 < days" and "days \<le> 2"
  shows "score (scoreBeforeClamp parseDate (it\<lparr> expirationDate := Some expiration \<rparr>) prof history now)
     = score (scoreBeforeClamp parseDate (it\<lparr> expirationDate := None \<rparr>) prof history now) + 25"
  unfolding score_scoreBeforeClamp other_steps_ignore_expirationDate
  using assms by (simp add: stepExpiration_cases noScore_def)

text \<open>
  C8, as stated, fails in its last sentence. The default item of the tests on the
  default profile, at a time when it expires in exactly one day, has the score 100; the
  same item without an expiration date has the score 80. The item that expires in one day
  scores 20 higher, not 25: the sum 105 is clamped to 100.
\<close>

theorem expiration_claim_counterexample:
  "daysUntilExpiry fixtureDates ''2024-01-02T15:30:00.000Z'' afternoon = Some 1
   \<and> score (calculateSuggestionScore fixtureDates
        (createTestItem\<lparr> expirationDate := Some ''2024-01-02T15:30:00.000Z'' \<rparr>)
        (createTestProfile Mediterranean) [] afternoon) = 100
   \<and> score (calculateSuggestionScore fixtureDates
        (createTestItem\<lparr> expirationDate := None \<rparr>)
        (createTestProfile Mediterranean) [] afternoon) = 80"
  by code_simp

text \<open>
  C8, amended. For an item with an expiration date, and \<open>days\<close> the number of days
  from the current time to that date, as a fraction: \<open>days \<le> 0\<close> subtracts 100 from the
  score and appends a warning that contains the word expired; \<open>0 < days \<le> 2\<close> adds 25 and
  appends a reason that cites the number of days rounded up; \<open>2 < days \<le> 5\<close> adds 10 and
  appends a softer reason; \<open>days > 5\<close> changes nothing; an item without an expiration
  date gets no adjustment. So the sum before the clamp of an item that expires within two
  days, in one day for instance, is 25 higher than that of the same item without an
  expiration date; the scores returned differ by 25 when the sum of the item without
  expiration date lies between 0 and 75, so that the clamp changes neither.
\<close>

theorem expiration_adjustment:
  "(expirationDate it = Some expiration \<and> expiration \<noteq> []
      \<and> daysUntilExpiry parseDate expiration now = Some days \<longrightarrow>
      (days \<le> 0 \<longrightarrow>
         stepExpiration parseDate it now acc
           = acc\<lparr> score := score acc - 100,
                  score_warnings := score_warnings acc @ [''This item has expired''] \<rparr>)
    \<and> (0 < days \<and> days \<le> 2 \<longrightarrow>
         stepExpiration parseDate it now acc
           = acc\<lparr> score := score acc + 25,
                  reasons := reasons acc @
                    [''Eat soon - expiring in '' @ numToString \<lceil>days\<rceil> @ '' days''] \<rparr>)
    \<and> (2 < days \<and> days \<le> 5 \<longrightarrow>
         stepExpiration parseDate it now acc
           = acc\<lparr> score := score acc + 10,
                  reasons := reasons acc @
                    [''Consider eating soon - expires in '' @ numToString \<lceil>days\<rceil>
                       @ '' days''] \<rparr>)
    \<and> (5 < days \<longrightarrow> stepExpiration parseDate it now acc = acc))
   \<and> includes_str ''This item has expired'' ''expired''
   \<and> (expirationDate it = None \<longrightarrow> stepExpiration parseDate it now acc = acc)
   \<and> (expiration \<noteq> [] \<and> daysUntilExpiry parseDate expiration now = Some days
        \<and> 0 < days \<and> days \<le> 2 \<longrightarrow>
        score (scoreBeforeClamp parseDate (it\<lparr> expirationDate := Some expiration \<rparr>) prof history now)
          = score (scoreBeforeClamp parseDate (it\<lparr> expirationDate := None \<rparr>) prof history now) + 25
      \<and> (0 \<le> score (scoreBeforeClamp parseDate (it\<lparr> expirationDate := None \<rparr>) prof history now)
         \<and> score (scoreBeforeClamp parseDate (it\<lparr> expirationDate := None \<rparr>) prof history now) \<le> 75
         \<longrightarrow> score (calculateSuggestionScore parseDate (it\<lparr> expirationDate := Some expiration \<rparr>)
                      prof history now)
             = score (calculateSuggestionScore parseDate (it\<lparr> expirationDate := None \<rparr>)
                      prof history now) + 25))"
proof (intro conjI impI)
  assume "expiration \<noteq> [] \<and> daysUntilExpiry parseDate expiration now = Some days
        \<and> 0 < days \<and> days \<le> 2"
  then show raw: "score (scoreBeforeClamp parseDate (it\<lparr> expirationDate := Some expiration \<rparr>) prof history now)
          = score (scoreBeforeClamp parseDate (it\<lparr> expirationDate := None \<rparr>) prof history now) + 25"
    by (simp add: scoreBeforeClamp_expiring_soon)
  assume "0 \<le> score (scoreBeforeClamp parseDate (it\<lparr> expirationDate := None \<rparr>) prof history now)
         \<and> score (scoreBeforeClamp parseDate (it\<lparr> expirationDate := None \<rparr>) prof history now) \<le> 75"
  with raw show "score (calculateSuggestionScore parseDate (it\<lparr> expirationDate := Some expiration \<rparr>)
                      prof history now)
             = score (calculateSuggestionScore parseDate (it\<lparr> expirationDate := None \<rparr>)
                      prof history now) + 25"
    by (simp add: score_calculateSuggestionScore)
qed (simp_all add: stepExpiration_cases expired_warning_mentions_expired)

theorem expiration_adjustment_witness:
  "daysUntilExpiry fixtureDates ''2024-01-02T15:30:00.000Z'' afternoon = Some 1
   \<and> score (scoreBeforeClamp fixtureDates (chickenBreast\<lparr> expirationDate := None \<rparr>)
         (createTestProfile Vegetarian) [] afternoon) = 20
   \<and> score (calculateSuggestionScore fixtureDates
         (chickenBreast\<lparr> expirationDate := Some ''2024-01-02T15:30:00.000Z'' \<rparr>)
         (createTestProfile Vegetarian) [] afternoon) = 45
   \<and> stepExpiration fixtureDates
         (chickenBreast\<lparr> expirationDate := Some ''2024-01-02T15:30:00.000Z'' \<rparr>) afternoon noScore
       = \<lparr> score = 25, reasons = [''Eat soon - expiring in 1 days''], score_warnings = [] \<rparr>"
proof -
  let ?e = "''2024-01-02T15:30:00.000Z''"
  let ?it = "chickenBreast\<lparr> expirationDate := Some ?e \<rparr>"
  let ?prof = "createTestProfile Vegetarian"
  have d: "daysUntilExpiry fixtureDates ?e afternoon = Some 1"
    by code_simp
  have raw: "score (scoreBeforeClamp fixtureDates (chickenBreast\<lparr> expirationDate := None \<rparr>)
         ?prof [] afternoon) = 20"
    by code_simp
  have plain: "score (calculateSuggestionScore fixtureDates
         (chickenBreast\<lparr> expirationDate := None \<rparr>) ?prof [] afternoon) = 20"
    using raw by (simp add: score_calculateSuggestionScore)
  have one: "numToString 1 = ''1''"
    by code_simp
  from expiration_adjustment [of ?it ?e fixtureDates afternoon 1 noScore ?prof "[]"] d raw plain one
  show ?thesis
    by (simp add: noScore_def)
qed

section \<open>The ranking\<close>

lemma collectSuggestions_eq:
  "collectSuggestions parseDate prof history now inventory suggestions =
     suggestions @
       map (\<lambda>it. toSuggestion it (calculateSuggestionScore parseDate it prof history now))
         (filter (\<lambda>it. \<not> (case quantity it of Unknown \<Rightarrow> False | Known q \<Rightarrow> q \<le> 0)
                       \<and> category it \<noteq> Condiments
                       \<and> score (calculateSuggestionScore parseDate it prof history now) \<ge> 20)
            inventory)"
  by (induction inventory arbitrary: suggestions) (simp_all add: Let_def)

lemma sug_toSuggestion [simp]:
  "sug_item (toSuggestion it r) = it" "sug_score (toSuggestion it r) = score r"
  by (simp_all add: toSuggestion_def)

lemma set_generateSuggestions:
  "set (generateSuggestions parseDate inventory prof history now)
     = (\<lambda>it. toSuggestion it (calculateSuggestionScore parseDate it prof history now)) `
         {it \<in> set inventory.
            \<not> (case quantity it of Unknown \<Rightarrow> False | Known q \<Rightarrow> q \<le> 0)
            \<and> category it \<noteq> Condiments
            \<and> score (calculateSuggestionScore parseDate it prof history now) \<ge> 20}"
  by (simp add: generateSuggestions_def sortByScore_def collectSuggestions_eq)

text \<open>
  C6. For every inventory, profile, history and current time, no item whose quantity is
  a known number that is zero or negative, and no item of the category condiments, appears
  in the output of \<open>generateSuggestions\<close>. An item of unknown quantity is not excluded by
  the quantity filter: it appears when it is no condiment and its score is at least 20.
\<close>

theorem generateSuggestions_excludes_absent_and_condiments:
  "(\<forall>s \<in> set (generateSuggestions parseDate inventory prof history now).
      (\<forall>q. quantity (sug_item s) = Known q \<longrightarrow> q > 0)
    \<and> category (sug_item s) \<noteq> Condiments)
   \<and> (\<forall>it \<in> set inventory.
        quantity it = Unknown \<and> category it \<noteq> Condiments
        \<and> score (calculateSuggestionScore parseDate it prof history now) \<ge> 20
        \<longrightarrow> it \<in> sug_item ` set (generateSuggestions parseDate inventory prof history now))"
  unfolding set_generateSuggestions
  by (auto simp: image_iff)

theorem generateSuggestions_excludes_witness:
  "map sug_item (generateSuggestions fixtureDates
       [emptyItem, ketchup, createTestItem\<lparr> quantity := Unknown \<rparr>]
       (createTestProfile Mediterranean) [] afternoon)
     = [createTestItem\<lparr> quantity := Unknown \<rparr>]
   \<and> quantity emptyItem = Known 0 \<and> category ketchup = Condiments
   \<and> emptyItem \<notin> sug_item ` set (generateSuggestions fixtureDates
       [emptyItem, ketchup, createTestItem\<lparr> quantity := Unknown \<rparr>]
       (createTestProfile Mediterranean) [] afternoon)
   \<and> ketchup \<notin> sug_item ` set (generateSuggestions fixtureDates
       [emptyItem, ketchup, createTestItem\<lparr> quantity := Unknown \<rparr>]
       (createTestProfile Mediterranean) [] afternoon)"
proof -
  let ?out = "generateSuggestions fixtureDates
       [emptyItem, ketchup, createTestItem\<lparr> quantity := Unknown \<rparr>]
       (createTestProfile Mediterranean) [] afternoon"
  have out: "map sug_item ?out = [createTestItem\<lparr> quantity := Unknown \<rparr>]"
    by code_simp
  have e: "quantity emptyItem = Known 0" and k: "category ketchup = Condiments"
    by (simp_all add: emptyItem_def ketchup_def)
  from generateSuggestions_excludes_absent_and_condiments
         [of fixtureDates "[emptyItem, ketchup, createTestItem\<lparr> quantity := Unknown \<rparr>]"
             "createTestProfile Mediterranean" "[]" afternoon]
  have "\<forall>s \<in> set ?out. (\<forall>q. quantity (sug_item s) = Known q \<longrightarrow> q > 0)
          \<and> category (sug_item s) \<noteq> Condiments"
    by (rule conjunct1)
  with e k have "emptyItem \<notin> sug_item ` set ?out" "ketchup \<notin> sug_item ` set ?out"
    by auto
  with out e k show ?thesis by simp
qed

lemma sorted_wrt_sortByScore:
  "sorted_wrt (\<lambda>a b. sug_score a \<ge> sug_score b) (sortByScore suggestions)"
proof -
  have "sorted (map (\<lambda>s. - sug_score s) (sort_key (\<lambda>s. - sug_score s) suggestions))"
    by (rule sorted_sort_key)
  then show ?thesis
    by (simp add: sortByScore_def sorted_map)
qed

lemma filter_sortByScore:
  "filter (\<lambda>s. sug_score s = k) (sortByScore suggestions)
     = filter (\<lambda>s. sug_score s = k) suggestions"
proof -
  have "filter (\<lambda>s. - sug_score s = - k) (sort_key (\<lambda>s. - sug_score s) suggestions)
      = filter (\<lambda>s. - sug_score s = - k) suggestions"
    by (rule sort_key_stable)
  then show ?thesis
    by (simp add: sortByScore_def)
qed

text \<open>
  C9. Every suggestion in the output of \<open>generateSuggestions\<close> has a score of at least
  20; the output is in non-increasing order of score; and for every score \<open>k\<close> the items of
  the suggestions with that score, in output order, are the items of the inventory that are
  not skipped and score \<open>k\<close>, in inventory order: suggestions of equal score keep the order
  in which the inventory has them, and no second key orders them.
\<close>

theorem generateSuggestions_ranked:
  "(\<forall>s \<in> set (generateSuggestions parseDate inventory prof history now). sug_score s \<ge> 20)
   \<and> sorted_wrt (\<lambda>a b. sug_score a \<ge> sug_score b)
        (generateSuggestions parseDate inventory prof history now)
   \<and> (\<forall>k. map sug_item
             (filter (\<lambda>s. sug_score s = k)
                (generateSuggestions parseDate inventory prof history now))
           = filter (\<lambda>it. \<not> (case quantity it of Unknown \<Rightarrow> False | Known q \<Rightarrow> q \<le> 0)
                         \<and> category it \<noteq> Condiments
                         \<and> score (calculateSuggestionScore parseDate it prof history now) \<ge> 20
                         \<and> score (calculateSuggestionScore parseDate it prof history now) = k)
               inventory)"
proof (intro conjI allI)
  show "\<forall>s \<in> set (generateSuggestions parseDate inventory prof history now). sug_score s \<ge> 20"
    unfolding set_generateSuggestions by auto
  show "sorted_wrt (\<lambda>a b. sug_score a \<ge> sug_score b)
        (generateSuggestions parseDate inventory prof history now)"
    unfolding generateSuggestions_def by (rule sorted_wrt_sortByScore)
  fix k
  show "map sug_item
             (filter (\<lambda>s. sug_score s = k)
                (generateSuggestions parseDate inventory prof history now))
           = filter (\<lambda>it. \<not> (case quantity it of Unknown \<Rightarrow> False | Known q \<Rightarrow> q \<le> 0)
                         \<and> category it \<noteq> Condiments
                         \<and> score (calculateSuggestionScore parseDate it prof history now) \<ge> 20
                         \<and> score (calculateSuggestionScore parseDate it prof history now) = k)
               inventory"
    unfolding generateSuggestions_def filter_sortByScore collectSuggestions_eq
    by (simp add: filter_map comp_def conj_ac)
qed

theorem generateSuggestions_ranked_witness:
  "map (\<lambda>s. (itemName (sug_item s), sug_score s))
     (generateSuggestions fixtureDates
        [createTestItem, chickenBreast,
         createTestItem\<lparr> itemName := ''Soon'', expirationDate := Some ''2024-01-02T15:30:00.000Z'' \<rparr>,
         createTestItem\<lparr> itemName := ''Old'', expirationDate := Some ''2023-12-31T15:30:00.000Z'' \<rparr>]
        (createTestProfile Mediterranean) [] afternoon)
     = [(''Soon'', 100), (''Test Food'', 80), (''Chicken Breast'', 80)]
   \<and> sorted_wrt (\<lambda>a b. sug_score a \<ge> sug_score b)
        (generateSuggestions fixtureDates
        [createTestItem, chickenBreast,
         createTestItem\<lparr> itemName := ''Soon'', expirationDate := Some ''2024-01-02T15:30:00.000Z'' \<rparr>,
         createTestItem\<lparr> itemName := ''Old'', expirationDate := Some ''2023-12-31T15:30:00.000Z'' \<rparr>]
        (createTestProfile Mediterranean) [] afternoon)"
proof -
  let ?inv = "[createTestItem, chickenBreast,
         createTestItem\<lparr> itemName := ''Soon'', expirationDate := Some ''2024-01-02T15:30:00.000Z'' \<rparr>,
         createTestItem\<lparr> itemName := ''Old'', expirationDate := Some ''2023-12-31T15:30:00.000Z'' \<rparr>]"
  have out: "map (\<lambda>s. (itemName (sug_item s), sug_score s))
     (generateSuggestions fixtureDates ?inv (createTestProfile Mediterranean) [] afternoon)
     = [(''Soon'', 100), (''Test Food'', 80), (''Chicken Breast'', 80)]"
    by code_simp
  from generateSuggestions_ranked [of fixtureDates ?inv "createTestProfile Mediterranean" "[]" afternoon]
  have "sorted_wrt (\<lambda>a b. sug_score a \<ge> sug_score b)
        (generateSuggestions fixtureDates ?inv (createTestProfile Mediterranean) [] afternoon)"
    by simp
  with out show ?thesis by simp
qed

end
